theory Spec2Isabelle
  imports Main "HOL-Library.AList"
begin

section \<open>The verification tasks of hardhat-verify (packages/hardhat-verify/src/index.ts)\<close>

text \<open>
  The file registers a task and several subtasks with the Hardhat runtime. Each action is
  an asynchronous function that awaits its collaborators one after the other, so it is
  modelled as a sequential program over an explicit state: the state of the outside world
  (an arbitrary type \<open>'w\<close>, changed by every collaborator) and the trace of the effects
  performed so far. An exception is the error value \<open>Inl e\<close>.

  A \<open>run\<close> goes through the Hardhat runtime, which is not part of this file. Before the
  action of a task it checks the arguments against the parameters the task declares; the
  declarations are in this file, and the check is written out below from them.
\<close>

subsection \<open>Task names, errors, events\<close>

text \<open>
  The task-name constants come from \<open>./internal/task-names\<close> and from
  \<open>hardhat/builtin-tasks/task-names\<close>; only their identity matters here.
  \<open>OtherTask\<close> stands for any further task name a list of subtasks may hold.
\<close>

datatype task =
    TASK_VERIFY
  | TASK_VERIFY_GET_VERIFICATION_SUBTASKS
  | TASK_VERIFY_RESOLVE_ARGUMENTS
  | TASK_VERIFY_VERIFY
  | TASK_VERIFY_ETHERSCAN
  | TASK_VERIFY_ETHERSCAN_GET_CONTRACT_INFORMATION
  | TASK_VERIFY_ETHERSCAN_GET_MINIMAL_INPUT
  | TASK_VERIFY_ETHERSCAN_ATTEMPT_VERIFICATION
  | TASK_VERIFY_PRINT_SUPPORTED_NETWORKS
  | TASK_VERIFY_SOURCIFY
  | TASK_VERIFY_SOURCIFY_DISABLED_WARNING
  | TASK_COMPILE_SOLIDITY_GET_COMPILATION_JOB_FOR_FILE
  | TASK_COMPILE_SOLIDITY_GET_COMPILER_INPUT
  | TASK_COMPILE_SOLIDITY_GET_DEPENDENCY_GRAPH
  | OtherTask string

text \<open>
  The error classes of \<open>./internal/errors\<close> with the arguments their constructors are
  given in this file. \<open>MissingTaskArgumentError\<close> (HH306) and
  \<open>InvalidValueForTypeError\<close> (HH301) are the runtime's, with the parameter and the task.
  \<open>OtherError\<close> is any other exception a collaborator throws.
\<close>

datatype error =
    MissingAddressError
  | InvalidAddressError string
  | InvalidContractNameError string
  | InvalidConstructorArgumentsError
  | InvalidLibrariesError
  | CompilerVersionsMismatchError "string list" string string
  | ContractNotFoundError string
  | BuildInfoNotFoundError string
  | BuildInfoCompilerVersionMismatchError string string bool string string
  | DeployedBytecodeMismatchError string string
  | UnexpectedNumberOfFilesError
  | VerificationAPIUnexpectedMessageError string
  | ContractVerificationFailedError string "string list"
  | MissingTaskArgumentError string task
  | InvalidValueForTypeError string task
  | OtherError string

text \<open>
  One event for every effect of the file: a \<open>run\<close> of a task through the Hardhat
  runtime, a call of a collaborator (with the arguments that identify it), console output
  and \<open>process.exit\<close>.
\<close>

datatype event =
    Run task
  | ValidateInputFile string
  | GetCurrentChainConfig string
  | FromChainConfig
  | IsVerified string
  | GetContractUrl string
  | ConsoleLog string
  | ConsoleWarn string
  | GetCompilerVersions
  | GetDeployedContractBytecode string
  | GetMatchingVersions "string list"
  | EncodeArguments string string "string list"
  | ImportAddressModule
  | ResolveConstructorArguments
  | ResolveLibraries
  | ArtifactExists string
  | GetBuildInfo string
  | ExtractMatchingContractInformation string
  | ExtractInferredContractInformation "string list"
  | GetLibraryInformation
  | Verify string string string string string
  | Sleep nat
  | GetVerificationStatus string
  | PrintVerificationErrors "(task \<times> error) list"
  | PrintSupportedNetworks
  | ProcessExit int

subsection \<open>Programs: state passing with exceptions\<close>

type_synonym 'w state = "'w \<times> event list"

type_synonym ('w, 'a) external = "'w \<Rightarrow> (error + 'a) \<times> 'w"

type_synonym ('w, 'a) prog = "'w state \<Rightarrow> (error + 'a) \<times> 'w state"

definition return :: "'a \<Rightarrow> ('w, 'a) prog" where
  "return a s = (Inr a, s)"

definition throw :: "error \<Rightarrow> ('w, 'a) prog" where
  "throw e s = (Inl e, s)"

text \<open>Sequencing: an exception of the first program skips the rest.\<close>

definition andThen :: "('w, 'a) prog \<Rightarrow> ('a \<Rightarrow> ('w, 'b) prog) \<Rightarrow> ('w, 'b) prog" where
  "andThen m f s = (case m s of (Inl e, s') \<Rightarrow> (Inl e, s') | (Inr a, s') \<Rightarrow> f a s')"

text \<open>\<open>try { m } catch (error) { h error }\<close>\<close>

definition try_catch :: "('w, 'a) prog \<Rightarrow> (error \<Rightarrow> ('w, 'a) prog) \<Rightarrow> ('w, 'a) prog" where
  "try_catch m h s = (case m s of (Inl e, s') \<Rightarrow> h e s' | (Inr a, s') \<Rightarrow> (Inr a, s'))"

text \<open>An effect that cannot fail: it is only recorded.\<close>

definition emit :: "event \<Rightarrow> ('w, unit) prog" where
  "emit ev s = (Inr (), (fst s, snd s @ [ev]))"

text \<open>
  A call of a collaborator: it is recorded, it may change the world, and it returns a value
  or throws.
\<close>

definition call :: "event \<Rightarrow> ('w, 'a) external \<Rightarrow> ('w, 'a) prog" where
  "call ev f s = (case f (fst s) of (r, w') \<Rightarrow> (r, (w', snd s @ [ev])))"

subsection \<open>Data\<close>

type_synonym LibraryToAddress = "(string \<times> string) list"

type_synonym SourceToLibraryToAddress = "(string \<times> LibraryToAddress) list"

text \<open>
  \<open>CompilerInput\<close> (hardhat/types) is the standard JSON input
  \<open>{language, sources, settings}\<close>; of the settings only \<open>libraries\<close> is written here,
  the other settings are kept as they are. Record fields are constants of the theory, so
  the fields of the argument and result records carry a prefix and leave the names of the
  source's local variables free.
\<close>

record CompilerSettings =
  settings_libraries :: "SourceToLibraryToAddress option"
  settings_other :: string

record CompilerInput =
  language :: string
  sources :: "(string \<times> string) list"
  settings :: CompilerSettings

text \<open>
  \<open>Bytecode\<close> (./internal/solc/bytecode) is used through its getters only; the record holds
  what \<open>getVersion()\<close>, \<open>isOvm()\<close> and \<open>hasVersionRange()\<close> return.
\<close>

record Bytecode =
  bytecode :: string
  getVersion :: string
  isOvm :: bool
  hasVersionRange :: bool

text \<open>
  The response object of the explorer (./internal/etherscan): its \<open>message\<close> and what
  \<open>isFailure()\<close> and \<open>isSuccess()\<close> return.
\<close>

record EtherscanResponse =
  message :: string
  isFailure :: bool
  isSuccess :: bool

text \<open>An instance of the \<open>Etherscan\<close> class, through the four methods called here.\<close>

record 'w Etherscan =
  isVerified :: "string \<Rightarrow> ('w, bool) external"
  getContractUrl :: "string \<Rightarrow> ('w, string) external"
  verify :: "string \<Rightarrow> string \<Rightarrow> string \<Rightarrow> string \<Rightarrow> string \<Rightarrow> ('w, EtherscanResponse) external"
  getVerificationStatus :: "string \<Rightarrow> ('w, EtherscanResponse) external"

text \<open>
  \<open>ContractInformation\<close> and \<open>ExtendedContractInformation\<close> (./internal/solc/artifacts),
  with the fields this file reads. The extended record is the spread
  \<open>{...contractInformation, ...libraryInformation}\<close>.
\<close>

record ContractInformation =
  ci_compilerInput :: CompilerInput
  ci_solcLongVersion :: string
  ci_sourceName :: string
  ci_contractName :: string
  ci_abi :: string

record LibraryInformation =
  li_libraries :: SourceToLibraryToAddress
  li_undetectableLibraries :: "string list"

record ExtendedContractInformation =
  eci_compilerInput :: CompilerInput
  eci_solcLongVersion :: string
  eci_sourceName :: string
  eci_contractName :: string
  eci_abi :: string
  eci_libraries :: SourceToLibraryToAddress
  eci_undetectableLibraries :: "string list"

record BuildInfo =
  solcVersion :: string
  buildInfoInput :: CompilerInput
  buildInfoOutput :: string

record ResolvedFile =
  rf_sourceName :: string
  rf_content :: string

text \<open>\<open>DependencyGraph\<close>: what \<open>getResolvedFiles()\<close> returns.\<close>

record DependencyGraph =
  getResolvedFiles :: "ResolvedFile list"

text \<open>
  The \<open>libraries\<close> task argument is a path to a module, or already a dictionary when the
  subtask is run from \<open>verify:verify\<close> (\<open>typeof librariesModule === "object"\<close>).
\<close>

datatype librariesParam =
    LibrariesUndefined
  | LibrariesModule string
  | LibrariesObject LibraryToAddress

record VerifyTaskArgs =
  ta_address :: "string option"
  ta_constructorArgsParams :: "string list"
  ta_constructorArgs :: "string option"
  ta_libraries :: librariesParam
  ta_contract :: "string option"
  ta_listNetworks :: bool

record VerificationArgs =
  va_address :: string
  va_constructorArgs :: "string list"
  va_libraries :: LibraryToAddress
  va_contractFQN :: "string option"

record VerificationResponse =
  vr_success :: bool
  vr_message :: string

text \<open>How the \<open>verify\<close> task ends: its action returns, or \<open>process.exit\<close> ends the process.\<close>

datatype completion = Returned | Exited int

subsection \<open>The collaborators\<close>

text \<open>
  Everything the file imports and calls is a parameter of the model, grouped by the module
  or object it comes from. A call may change the world and may throw.
\<close>

record Config =
  etherscanEnabled :: bool
  etherscanApiKey :: string
  etherscanCustomChains :: "string list"
  sourcifyEnabled :: bool
  solidity :: string

text \<open>\<open>artifacts\<close> of the Hardhat runtime environment.\<close>

record 'w Artifacts =
  artifactExists :: "string \<Rightarrow> ('w, bool) external"
  getBuildInfo :: "string \<Rightarrow> ('w, BuildInfo option) external"

text \<open>./internal/utilities\<close>

record 'w Utilities =
  sleep :: "nat \<Rightarrow> ('w, unit) external"
  encodeArguments :: "string \<Rightarrow> string \<Rightarrow> string \<Rightarrow> string list \<Rightarrow> ('w, string) external"
  getCompilerVersions :: "string \<Rightarrow> ('w, string list) external"
  printSupportedNetworks :: "string list \<Rightarrow> ('w, unit) external"
  resolveConstructorArguments :: "string list \<Rightarrow> string option \<Rightarrow> ('w, string list) external"
  resolveLibraries :: "string option \<Rightarrow> ('w, LibraryToAddress) external"
  printVerificationErrors :: "(task \<times> error) list \<Rightarrow> ('w, unit) external"

text \<open>./internal/solc/artifacts\<close>

record 'w SolcArtifacts =
  extractInferredContractInformation ::
    "string \<Rightarrow> string list \<Rightarrow> Bytecode \<Rightarrow> ('w, ContractInformation) external"
  extractMatchingContractInformation ::
    "string \<Rightarrow> BuildInfo \<Rightarrow> Bytecode \<Rightarrow> ('w, ContractInformation option) external"
  getLibraryInformation ::
    "ContractInformation \<Rightarrow> LibraryToAddress \<Rightarrow> ('w, LibraryInformation) external"

text \<open>
  The static methods of \<open>Etherscan\<close> and of \<open>Bytecode\<close>, and \<open>getMatchingVersions\<close>.
  \<open>network.provider\<close>, which two of them are also given, is part of the world.
\<close>

record 'w Statics =
  getCurrentChainConfig :: "string \<Rightarrow> string list \<Rightarrow> ('w, string) external"
  fromChainConfig :: "string \<Rightarrow> string \<Rightarrow> ('w, 'w Etherscan) external"
  getDeployedContractBytecode :: "string \<Rightarrow> string \<Rightarrow> ('w, Bytecode) external"
  getMatchingVersions :: "Bytecode \<Rightarrow> string list \<Rightarrow> ('w, string list) external"

text \<open>
  The tasks this file runs and does not define: the three compile tasks of Hardhat, and
  any verification subtask other than the ones below (\<open>verify:sourcify\<close> among them).
\<close>

record 'w Tasks =
  getDependencyGraph :: "string list \<Rightarrow> ('w, DependencyGraph) external"
  getCompilationJobForFile :: "DependencyGraph \<Rightarrow> ResolvedFile \<Rightarrow> ('w, string) external"
  getCompilerInput :: "string \<Rightarrow> ('w, CompilerInput) external"
  otherTask :: "task \<Rightarrow> VerifyTaskArgs \<Rightarrow> ('w, unit) external"

record 'w env =
  config :: Config
  networkName :: string
  artifacts :: "'w Artifacts"
  utilities :: "'w Utilities"
  solcArtifacts :: "'w SolcArtifacts"
  statics :: "'w Statics"
  tasks :: "'w Tasks"
  importIsAddress :: "('w, string \<Rightarrow> bool) external"
  isFullyQualifiedName :: "string \<Rightarrow> bool"
  JSON_stringify :: "CompilerInput \<Rightarrow> string"
  validateInputFile :: "string \<Rightarrow> ('w, unit) external"

subsection \<open>The runtime's side of a run\<close>

text \<open>
  A task declares its parameters with \<open>addParam\<close> (required), \<open>addOptionalParam\<close> and
  \<open>addFlag\<close>, each with a type (\<open>types.string\<close> when none is given). \<open>run(task, args)\<close>
  looks at every declared parameter in turn before the action runs: an argument that is
  \<open>undefined\<close> is an error (HH306) unless the parameter is optional; an argument that is
  defined must be a value of the parameter's type (HH301). For \<open>types.inputFile\<close> that
  means a readable file, which is asked of the file system (\<open>validateInputFile\<close>);
  \<open>types.any\<close> takes every value. Arguments the task does not declare are passed on
  unchecked. The default of an optional parameter replaces an \<open>undefined\<close> argument; the
  typed arguments of the actions below already hold it.
\<close>

datatype paramType = TypeString | TypeBoolean | TypeInputFile | TypeAny

record ParamDefinition =
  pd_name :: string
  pd_isOptional :: bool
  pd_type :: paramType

definition addParam :: "string \<Rightarrow> paramType \<Rightarrow> ParamDefinition" where
  "addParam name ty = \<lparr>pd_name = name, pd_isOptional = False, pd_type = ty\<rparr>"

definition addOptionalParam :: "string \<Rightarrow> paramType \<Rightarrow> ParamDefinition" where
  "addOptionalParam name ty = \<lparr>pd_name = name, pd_isOptional = True, pd_type = ty\<rparr>"

definition addFlag :: "string \<Rightarrow> ParamDefinition" where
  "addFlag name = \<lparr>pd_name = name, pd_isOptional = True, pd_type = TypeBoolean\<rparr>"

text \<open>
  An argument as the runtime sees it: \<open>undefined\<close>, a string, a boolean, or any other
  value (an array or an object). The arguments of a run are an object, read by name.
\<close>

datatype argument = Undefined | StringValue string | BooleanValue bool | OtherValue

type_synonym TaskArguments = "(string \<times> argument) list"

definition argumentValue :: "TaskArguments \<Rightarrow> string \<Rightarrow> argument" where
  "argumentValue taskArguments name =
     (case map_of taskArguments name of None \<Rightarrow> Undefined | Some v \<Rightarrow> v)"

definition optionalString :: "string option \<Rightarrow> argument" where
  "optionalString v = (case v of None \<Rightarrow> Undefined | Some str \<Rightarrow> StringValue str)"

definition checkTypeValidation ::
  "'w env \<Rightarrow> task \<Rightarrow> ParamDefinition \<Rightarrow> argument \<Rightarrow> ('w, unit) prog" where
  "checkTypeValidation env t paramDefinition v =
     (case pd_type paramDefinition of
        TypeAny \<Rightarrow> return ()
      | TypeString \<Rightarrow>
          (case v of
             StringValue str \<Rightarrow> return ()
           | _ \<Rightarrow> throw (InvalidValueForTypeError (pd_name paramDefinition) t))
      | TypeBoolean \<Rightarrow>
          (case v of
             BooleanValue b \<Rightarrow> return ()
           | _ \<Rightarrow> throw (InvalidValueForTypeError (pd_name paramDefinition) t))
      | TypeInputFile \<Rightarrow>
          (case v of
             StringValue path \<Rightarrow> call (ValidateInputFile path) (validateInputFile env path)
           | _ \<Rightarrow> throw (InvalidValueForTypeError (pd_name paramDefinition) t)))"

definition resolveArgument ::
  "'w env \<Rightarrow> task \<Rightarrow> ParamDefinition \<Rightarrow> argument \<Rightarrow> ('w, unit) prog" where
  "resolveArgument env t paramDefinition v =
     (if v = Undefined
      then (if pd_isOptional paramDefinition then return ()
            else throw (MissingTaskArgumentError (pd_name paramDefinition) t))
      else checkTypeValidation env t paramDefinition v)"

fun resolveValidTaskArguments ::
  "'w env \<Rightarrow> task \<Rightarrow> ParamDefinition list \<Rightarrow> TaskArguments \<Rightarrow> ('w, unit) prog" where
  "resolveValidTaskArguments env t [] taskArguments = return ()"
| "resolveValidTaskArguments env t (paramDefinition # rest) taskArguments =
     andThen
       (resolveArgument env t paramDefinition
          (argumentValue taskArguments (pd_name paramDefinition)))
       (\<lambda>_. resolveValidTaskArguments env t rest taskArguments)"

text \<open>
  \<open>run(task, args)\<close> for a task of this file: the run is recorded, the arguments are
  checked against the parameters the task declares, then its action runs.
\<close>

definition run ::
  "'w env \<Rightarrow> task \<Rightarrow> ParamDefinition list \<Rightarrow> TaskArguments \<Rightarrow> ('w, 'a) prog \<Rightarrow> ('w, 'a) prog" where
  "run env t paramDefinitions taskArguments action =
     andThen (emit (Run t)) (\<lambda>_.
     andThen (resolveValidTaskArguments env t paramDefinitions taskArguments) (\<lambda>_.
     action))"

text \<open>The arguments of the main task, as the object the subtasks are run with.\<close>

definition verifyTaskArguments :: "VerifyTaskArgs \<Rightarrow> TaskArguments" where
  "verifyTaskArguments taskArgs =
     [(''address'', optionalString (ta_address taskArgs)),
      (''constructorArgsParams'', OtherValue),
      (''constructorArgs'', optionalString (ta_constructorArgs taskArgs)),
      (''libraries'',
         (case ta_libraries taskArgs of
            LibrariesUndefined \<Rightarrow> Undefined
          | LibrariesModule librariesModule \<Rightarrow> StringValue librariesModule
          | LibrariesObject librariesModule \<Rightarrow> OtherValue)),
      (''contract'', optionalString (ta_contract taskArgs)),
      (''listNetworks'', BooleanValue (ta_listNetworks taskArgs))]"

subsection \<open>Console messages\<close>

definition newline :: string where
  "newline = [CHR 0x0A]"

definition alreadyVerifiedMessage :: "string \<Rightarrow> string \<Rightarrow> string" where
  "alreadyVerifiedMessage address contractURL =
     ''The contract '' @ address @ '' has already been verified.'' @ newline @ contractURL"

definition minimalFailedMessage :: "string \<Rightarrow> string" where
  "minimalFailedMessage contractName =
     ''We tried verifying your contract '' @ contractName @
     '' without including any unrelated one, but it failed.'' @ newline @
     ''Trying again with the full solc input used to compile and deploy it.'' @ newline @
     ''This means that unrelated contracts may be displayed on Etherscan...'' @ newline"

definition submittedMessage :: "string \<Rightarrow> string \<Rightarrow> string \<Rightarrow> string" where
  "submittedMessage sourceName contractName address =
     ''Successfully submitted source code for contract'' @ newline @
     sourceName @ '':'' @ contractName @ '' at '' @ address @ newline @
     ''for verification on the block explorer. Waiting for verification result...'' @ newline"

definition verifiedMessage :: "string \<Rightarrow> string \<Rightarrow> string" where
  "verifiedMessage contractName contractURL =
     ''Successfully verified contract '' @ contractName @ '' on the block explorer.'' @
     newline @ contractURL"

definition noServicesWarning :: string where
  "noServicesWarning =
     ''WARNING: No verification services are enabled. Please enable at least one verification service in your configuration.''"

definition sourcifyDisabledWarning :: string where
  "sourcifyDisabledWarning =
     ''WARNING: Skipping Sourcify verification: Sourcify is disabled. To enable it, add this entry to your config:'' @
     newline @ newline @ ''sourcify: {'' @ newline @ ''enabled: true'' @ newline @ ''}'' @
     newline @ newline @ ''Learn more at https://...''"

subsection \<open>The subtasks of the Etherscan verification\<close>

text \<open>
  \<open>TASK_VERIFY_RESOLVE_ARGUMENTS\<close> (lines 354-402). The checks are made in the source's
  order; \<open>contract\<close> becomes \<open>contractFQN\<close>.
\<close>

definition verify_resolve_arguments :: "'w env \<Rightarrow> VerifyTaskArgs \<Rightarrow> ('w, VerificationArgs) prog" where
  "verify_resolve_arguments env taskArgs =
     (case ta_address taskArgs of
        None \<Rightarrow> throw MissingAddressError
      | Some address \<Rightarrow>
          andThen (call ImportAddressModule (importIsAddress env)) (\<lambda>isAddress.
          if \<not> isAddress address then throw (InvalidAddressError address)
          else
            andThen
              (case ta_contract taskArgs of
                 None \<Rightarrow> return ()
               | Some contract \<Rightarrow>
                   if \<not> isFullyQualifiedName env contract
                   then throw (InvalidContractNameError contract)
                   else return ())
              (\<lambda>_.
            andThen (call ResolveConstructorArguments
              (resolveConstructorArguments (utilities env)
                 (ta_constructorArgsParams taskArgs) (ta_constructorArgs taskArgs)))
              (\<lambda>constructorArgs.
            andThen
              (case ta_libraries taskArgs of
                 LibrariesObject librariesModule \<Rightarrow> return librariesModule
               | LibrariesModule librariesModule \<Rightarrow>
                   call ResolveLibraries (resolveLibraries (utilities env) (Some librariesModule))
               | LibrariesUndefined \<Rightarrow>
                   call ResolveLibraries (resolveLibraries (utilities env) None))
              (\<lambda>libraries.
            return \<lparr>va_address = address, va_constructorArgs = constructorArgs,
                     va_libraries = libraries, va_contractFQN = ta_contract taskArgs\<rparr>)))))"

text \<open>The parameters it declares (lines 355-360), and its run with the task arguments.\<close>

definition verify_resolve_arguments_params :: "ParamDefinition list" where
  "verify_resolve_arguments_params =
     [addOptionalParam ''address'' TypeString,
      addOptionalParam ''constructorArgsParams'' TypeAny,
      addOptionalParam ''constructorArgs'' TypeInputFile,
      addOptionalParam ''libraries'' TypeAny,
      addOptionalParam ''contract'' TypeString]"

definition run_resolve_arguments :: "'w env \<Rightarrow> VerifyTaskArgs \<Rightarrow> ('w, VerificationArgs) prog" where
  "run_resolve_arguments env taskArgs =
     run env TASK_VERIFY_RESOLVE_ARGUMENTS verify_resolve_arguments_params
       (verifyTaskArguments taskArgs) (verify_resolve_arguments env taskArgs)"

text \<open>
  \<open>TASK_VERIFY_ETHERSCAN_GET_CONTRACT_INFORMATION\<close> (lines 404-480). In named mode
  (\<open>contractFQN !== undefined\<close>) an exception of \<open>artifactExists\<close> is caught and read as
  \<open>false\<close>; every other exception leaves the action.
\<close>

definition verify_etherscan_get_contract_information ::
  "'w env \<Rightarrow> string option \<Rightarrow> Bytecode \<Rightarrow> string list \<Rightarrow> LibraryToAddress \<Rightarrow>
   ('w, ExtendedContractInformation) prog" where
  "verify_etherscan_get_contract_information env contractFQN deployedBytecode
       matchingCompilerVersions libraries =
     andThen
       (case contractFQN of
          Some fqn \<Rightarrow>
            andThen
              (try_catch (call (ArtifactExists fqn) (artifactExists (artifacts env) fqn))
                 (\<lambda>error. return False))
              (\<lambda>artifactExists.
            if \<not> artifactExists then throw (ContractNotFoundError fqn)
            else
              andThen (call (GetBuildInfo fqn) (getBuildInfo (artifacts env) fqn)) (\<lambda>buildInfo.
              case buildInfo of
                None \<Rightarrow> throw (BuildInfoNotFoundError fqn)
              | Some buildInfo \<Rightarrow>
                  if solcVersion buildInfo \<notin> set matchingCompilerVersions \<and>
                     \<not> isOvm deployedBytecode
                  then throw (BuildInfoCompilerVersionMismatchError fqn
                                (getVersion deployedBytecode) (hasVersionRange deployedBytecode)
                                (solcVersion buildInfo) (networkName env))
                  else
                    andThen (call (ExtractMatchingContractInformation fqn)
                      (extractMatchingContractInformation (solcArtifacts env) fqn buildInfo
                         deployedBytecode))
                      (\<lambda>contractInformation.
                    case contractInformation of
                      None \<Rightarrow> throw (DeployedBytecodeMismatchError (networkName env) fqn)
                    | Some contractInformation \<Rightarrow> return contractInformation)))
        | None \<Rightarrow>
            call (ExtractInferredContractInformation matchingCompilerVersions)
              (extractInferredContractInformation (solcArtifacts env) (networkName env)
                 matchingCompilerVersions deployedBytecode))
       (\<lambda>contractInformation.
     andThen (call GetLibraryInformation
       (getLibraryInformation (solcArtifacts env) contractInformation libraries))
       (\<lambda>libraryInformation.
     return \<lparr>eci_compilerInput = ci_compilerInput contractInformation,
              eci_solcLongVersion = ci_solcLongVersion contractInformation,
              eci_sourceName = ci_sourceName contractInformation,
              eci_contractName = ci_contractName contractInformation,
              eci_abi = ci_abi contractInformation,
              eci_libraries = li_libraries libraryInformation,
              eci_undetectableLibraries = li_undetectableLibraries libraryInformation\<rparr>))"

text \<open>The parameters it declares (lines 405-408), and its run as in lines 286-294.\<close>

definition get_contract_information_params :: "ParamDefinition list" where
  "get_contract_information_params =
     [addParam ''deployedBytecode'' TypeAny,
      addParam ''matchingCompilerVersions'' TypeAny,
      addParam ''libraries'' TypeAny,
      addOptionalParam ''contractFQN'' TypeString]"

definition run_get_contract_information ::
  "'w env \<Rightarrow> string option \<Rightarrow> Bytecode \<Rightarrow> string list \<Rightarrow> LibraryToAddress \<Rightarrow>
   ('w, ExtendedContractInformation) prog" where
  "run_get_contract_information env contractFQN deployedBytecode matchingCompilerVersions
       libraries =
     run env TASK_VERIFY_ETHERSCAN_GET_CONTRACT_INFORMATION get_contract_information_params
       [(''contractFQN'', optionalString contractFQN), (''deployedBytecode'', OtherValue),
        (''matchingCompilerVersions'', OtherValue), (''libraries'', OtherValue)]
       (verify_etherscan_get_contract_information env contractFQN deployedBytecode
          matchingCompilerVersions libraries)"

text \<open>
  \<open>TASK_VERIFY_ETHERSCAN_GET_MINIMAL_INPUT\<close> (lines 482-515). \<open>resolvedFiles[0]\<close> is read
  only after the length check; \<open>cloneDeep\<close> copies a value and is the identity here.
\<close>

definition verify_etherscan_get_minimal_input :: "'w env \<Rightarrow> string \<Rightarrow> ('w, CompilerInput) prog" where
  "verify_etherscan_get_minimal_input env sourceName =
     andThen (call (Run TASK_COMPILE_SOLIDITY_GET_DEPENDENCY_GRAPH)
       (getDependencyGraph (tasks env) [sourceName]))
       (\<lambda>dependencyGraph.
     let resolvedFiles =
           filter (\<lambda>resolvedFile. rf_sourceName resolvedFile = sourceName)
             (getResolvedFiles dependencyGraph)
     in
     if length resolvedFiles \<noteq> 1 then throw UnexpectedNumberOfFilesError
     else
       andThen (call (Run TASK_COMPILE_SOLIDITY_GET_COMPILATION_JOB_FOR_FILE)
         (getCompilationJobForFile (tasks env) dependencyGraph (resolvedFiles ! 0)))
         (\<lambda>compilationJob.
       andThen (call (Run TASK_COMPILE_SOLIDITY_GET_COMPILER_INPUT)
         (getCompilerInput (tasks env) compilationJob))
         (\<lambda>minimalInput.
       return minimalInput)))"

text \<open>The parameter it declares (line 483), and its run as in lines 296-301.\<close>

definition get_minimal_input_params :: "ParamDefinition list" where
  "get_minimal_input_params = [addParam ''sourceName'' TypeString]"

definition run_get_minimal_input :: "'w env \<Rightarrow> string \<Rightarrow> ('w, CompilerInput) prog" where
  "run_get_minimal_input env sourceName =
     run env TASK_VERIFY_ETHERSCAN_GET_MINIMAL_INPUT get_minimal_input_params
       [(''sourceName'', StringValue sourceName)]
       (verify_etherscan_get_minimal_input env sourceName)"

text \<open>
  \<open>TASK_VERIFY_ETHERSCAN_ATTEMPT_VERIFICATION\<close> (lines 517-570). The assignment
  \<open>compilerInput.settings.libraries = contractInformation.libraries\<close> is \<open>withLibraries\<close>;
  the updated input is what is serialized. Nothing reads the argument object after the
  action, so the update stays local to it. The two template strings passed to
  \<open>verify\<close> are \<open>contractFullName\<close> and \<open>compilerVersionTag\<close>.
\<close>

definition withLibraries :: "CompilerInput \<Rightarrow> SourceToLibraryToAddress \<Rightarrow> CompilerInput" where
  "withLibraries compilerInput libraries =
     compilerInput\<lparr>settings := (settings compilerInput)\<lparr>settings_libraries := Some libraries\<rparr>\<rparr>"

definition contractFullName :: "ExtendedContractInformation \<Rightarrow> string" where
  "contractFullName contractInformation =
     eci_sourceName contractInformation @ '':'' @ eci_contractName contractInformation"

definition compilerVersionTag :: "ExtendedContractInformation \<Rightarrow> string" where
  "compilerVersionTag contractInformation = ''v'' @ eci_solcLongVersion contractInformation"

definition verify_etherscan_attempt_verification ::
  "'w env \<Rightarrow> string \<Rightarrow> CompilerInput \<Rightarrow> ExtendedContractInformation \<Rightarrow> 'w Etherscan \<Rightarrow> string \<Rightarrow>
   ('w, VerificationResponse) prog" where
  "verify_etherscan_attempt_verification env address compilerInput contractInformation
       verificationInterface encodedConstructorArguments =
     (let sourceCode =
            JSON_stringify env (withLibraries compilerInput (eci_libraries contractInformation))
      in
      andThen (call (Verify address sourceCode (contractFullName contractInformation)
                       (compilerVersionTag contractInformation) encodedConstructorArguments)
        (verify verificationInterface address sourceCode (contractFullName contractInformation)
           (compilerVersionTag contractInformation) encodedConstructorArguments))
        (\<lambda>response.
      let guid = message response in
      andThen (emit (ConsoleLog (submittedMessage (eci_sourceName contractInformation)
                                   (eci_contractName contractInformation) address)))
        (\<lambda>_.
      andThen (call (Sleep 700) (sleep (utilities env) 700)) (\<lambda>_.
      andThen (call (GetVerificationStatus guid) (getVerificationStatus verificationInterface guid))
        (\<lambda>verificationStatus.
      if \<not> (isFailure verificationStatus \<or> isSuccess verificationStatus)
      then throw (VerificationAPIUnexpectedMessageError (message verificationStatus))
      else
        andThen
          (if isSuccess verificationStatus
           then andThen (call (GetContractUrl address)
                  (getContractUrl verificationInterface address))
                  (\<lambda>contractURL.
                emit (ConsoleLog (verifiedMessage (eci_contractName contractInformation)
                                    contractURL)))
           else return ())
          (\<lambda>_.
        return \<lparr>vr_success = isSuccess verificationStatus,
                 vr_message = message verificationStatus\<rparr>))))))"

text \<open>The parameters it declares (lines 518-522), and its run as in lines 312-318.\<close>

definition attempt_verification_params :: "ParamDefinition list" where
  "attempt_verification_params =
     [addParam ''address'' TypeString,
      addParam ''compilerInput'' TypeAny,
      addParam ''contractInformation'' TypeAny,
      addParam ''verificationInterface'' TypeAny,
      addParam ''encodedConstructorArguments'' TypeString]"

definition run_attempt_verification ::
  "'w env \<Rightarrow> string \<Rightarrow> CompilerInput \<Rightarrow> ExtendedContractInformation \<Rightarrow> 'w Etherscan \<Rightarrow> string \<Rightarrow>
   ('w, VerificationResponse) prog" where
  "run_attempt_verification env address compilerInput contractInformation
       verificationInterface encodedConstructorArguments =
     run env TASK_VERIFY_ETHERSCAN_ATTEMPT_VERIFICATION attempt_verification_params
       [(''address'', StringValue address), (''compilerInput'', OtherValue),
        (''contractInformation'', OtherValue), (''verificationInterface'', OtherValue),
        (''encodedConstructorArguments'', StringValue encodedConstructorArguments)]
       (verify_etherscan_attempt_verification env address compilerInput contractInformation
          verificationInterface encodedConstructorArguments)"

subsection \<open>The Etherscan verification subtask\<close>

text \<open>
  The action of \<open>TASK_VERIFY_ETHERSCAN\<close> (lines 239-352) is one function in the source. It
  is written here as four consecutive blocks, each ending in a call of the next, so that a
  property of a later phase can be stated from the values the earlier phases produced.

  Lines 310-352: the two attempts.
\<close>

definition verify_etherscan_submission ::
  "'w env \<Rightarrow> string \<Rightarrow> CompilerInput \<Rightarrow> ExtendedContractInformation \<Rightarrow> 'w Etherscan \<Rightarrow> string \<Rightarrow>
   ('w, unit) prog" where
  "verify_etherscan_submission env address minimalInput contractInformation etherscan
       encodedConstructorArguments =
     andThen (run_attempt_verification env address minimalInput contractInformation
                etherscan encodedConstructorArguments)
       (\<lambda>minimalResponse.
     if vr_success minimalResponse then return ()
     else
       andThen (emit (ConsoleLog (minimalFailedMessage (eci_contractName contractInformation))))
         (\<lambda>_.
       andThen (run_attempt_verification env address
                  (eci_compilerInput contractInformation) contractInformation etherscan
                  encodedConstructorArguments)
         (\<lambda>fullResponse.
       if vr_success fullResponse then return ()
       else throw (ContractVerificationFailedError (vr_message fullResponse)
                     (eci_undetectableLibraries contractInformation)))))"

text \<open>Lines 286-308, then the submission: contract information, minimal input, arguments.\<close>

definition verify_etherscan_resolution ::
  "'w env \<Rightarrow> VerificationArgs \<Rightarrow> 'w Etherscan \<Rightarrow> Bytecode \<Rightarrow> string list \<Rightarrow> ('w, unit) prog" where
  "verify_etherscan_resolution env args etherscan deployedBytecode matchingCompilerVersions =
     andThen (run_get_contract_information env (va_contractFQN args) deployedBytecode
                matchingCompilerVersions (va_libraries args))
       (\<lambda>contractInformation.
     andThen (run_get_minimal_input env (eci_sourceName contractInformation))
       (\<lambda>minimalInput.
     andThen (call (EncodeArguments (eci_sourceName contractInformation)
                      (eci_contractName contractInformation) (va_constructorArgs args))
       (encodeArguments (utilities env) (eci_abi contractInformation)
          (eci_sourceName contractInformation) (eci_contractName contractInformation)
          (va_constructorArgs args)))
       (\<lambda>encodedConstructorArguments.
     verify_etherscan_submission env (va_address args) minimalInput contractInformation
       etherscan encodedConstructorArguments)))"

text \<open>Lines 266-284, then the resolution: the compiler versions that match the bytecode.\<close>

definition verify_etherscan_unverified ::
  "'w env \<Rightarrow> VerificationArgs \<Rightarrow> 'w Etherscan \<Rightarrow> ('w, unit) prog" where
  "verify_etherscan_unverified env args etherscan =
     andThen (call GetCompilerVersions (getCompilerVersions (utilities env) (solidity (config env))))
       (\<lambda>configCompilerVersions.
     andThen (call (GetDeployedContractBytecode (va_address args))
       (getDeployedContractBytecode (statics env) (va_address args) (networkName env)))
       (\<lambda>deployedBytecode.
     andThen (call (GetMatchingVersions configCompilerVersions)
       (getMatchingVersions (statics env) deployedBytecode configCompilerVersions))
       (\<lambda>matchingCompilerVersions.
     if length matchingCompilerVersions = 0 \<and> \<not> isOvm deployedBytecode
     then throw (CompilerVersionsMismatchError configCompilerVersions
                   (getVersion deployedBytecode) (networkName env))
     else verify_etherscan_resolution env args etherscan deployedBytecode
            matchingCompilerVersions)))"

text \<open>Lines 239-264, then the rest: arguments, the explorer, the is-verified check.\<close>

definition verify_etherscan :: "'w env \<Rightarrow> VerifyTaskArgs \<Rightarrow> ('w, unit) prog" where
  "verify_etherscan env taskArgs =
     andThen (run_resolve_arguments env taskArgs) (\<lambda>args.
     andThen (call (GetCurrentChainConfig (networkName env))
       (getCurrentChainConfig (statics env) (networkName env)
          (etherscanCustomChains (config env))))
       (\<lambda>chainConfig.
     andThen (call FromChainConfig
       (fromChainConfig (statics env) (etherscanApiKey (config env)) chainConfig))
       (\<lambda>etherscan.
     andThen (call (IsVerified (va_address args)) (isVerified etherscan (va_address args)))
       (\<lambda>isVerified.
     if isVerified
     then andThen (call (GetContractUrl (va_address args))
            (getContractUrl etherscan (va_address args)))
            (\<lambda>contractURL.
          emit (ConsoleLog (alreadyVerifiedMessage (va_address args) contractURL)))
     else verify_etherscan_unverified env args etherscan))))"

text \<open>
  The parameters the subtask declares (lines 232-238): \<open>address\<close> is required. Its run
  with the arguments of the main task, as in the loop of that task.
\<close>

definition verify_etherscan_params :: "ParamDefinition list" where
  "verify_etherscan_params =
     [addParam ''address'' TypeString,
      addOptionalParam ''constructorArgsParams'' TypeAny,
      addOptionalParam ''constructorArgs'' TypeString,
      addOptionalParam ''libraries'' TypeAny,
      addOptionalParam ''contract'' TypeString,
      addFlag ''listNetworks'']"

definition run_verify_etherscan :: "'w env \<Rightarrow> VerifyTaskArgs \<Rightarrow> ('w, unit) prog" where
  "run_verify_etherscan env taskArgs =
     run env TASK_VERIFY_ETHERSCAN verify_etherscan_params (verifyTaskArguments taskArgs)
       (verify_etherscan env taskArgs)"

subsection \<open>The main task\<close>

text \<open>\<open>TASK_VERIFY_GET_VERIFICATION_SUBTASKS\<close> (lines 184-209).\<close>

definition verify_get_verification_subtasks :: "'w env \<Rightarrow> ('w, task list) prog" where
  "verify_get_verification_subtasks env =
     (let verificationSubtasks = [];
          verificationSubtasks =
            (if etherscanEnabled (config env)
             then verificationSubtasks @ [TASK_VERIFY_ETHERSCAN]
             else verificationSubtasks);
          verificationSubtasks =
            (if sourcifyEnabled (config env)
             then verificationSubtasks @ [TASK_VERIFY_SOURCIFY]
             else verificationSubtasks @ [TASK_VERIFY_SOURCIFY_DISABLED_WARNING])
      in
      andThen
        (if \<not> etherscanEnabled (config env) \<and> \<not> sourcifyEnabled (config env)
         then emit (ConsoleWarn noServicesWarning)
         else return ())
        (\<lambda>_.
      return verificationSubtasks))"

text \<open>\<open>TASK_VERIFY_SOURCIFY_DISABLED_WARNING\<close> (lines 211-223).\<close>

definition verify_sourcify_disabled_warning :: "('w, unit) prog" where
  "verify_sourcify_disabled_warning = emit (ConsoleWarn sourcifyDisabledWarning)"

text \<open>The runs of the subtasks that declare no parameter.\<close>

definition run_get_verification_subtasks :: "'w env \<Rightarrow> ('w, task list) prog" where
  "run_get_verification_subtasks env =
     run env TASK_VERIFY_GET_VERIFICATION_SUBTASKS [] []
       (verify_get_verification_subtasks env)"

definition run_sourcify_disabled_warning :: "'w env \<Rightarrow> VerifyTaskArgs \<Rightarrow> ('w, unit) prog" where
  "run_sourcify_disabled_warning env taskArgs =
     run env TASK_VERIFY_SOURCIFY_DISABLED_WARNING [] (verifyTaskArguments taskArgs)
       verify_sourcify_disabled_warning"

text \<open>\<open>TASK_VERIFY_PRINT_SUPPORTED_NETWORKS\<close> (lines 605-610).\<close>

definition verify_print_supported_networks :: "'w env \<Rightarrow> ('w, unit) prog" where
  "verify_print_supported_networks env =
     call PrintSupportedNetworks
       (printSupportedNetworks (utilities env) (etherscanCustomChains (config env)))"

text \<open>
  \<open>run(verificationSubtask, taskArgs)\<close> in the loop of the main task: the subtasks this file
  defines are run as above, any other name is a task defined elsewhere, runtime check
  included.
\<close>

definition run_verification_subtask :: "'w env \<Rightarrow> VerifyTaskArgs \<Rightarrow> task \<Rightarrow> ('w, unit) prog" where
  "run_verification_subtask env taskArgs verificationSubtask =
     (if verificationSubtask = TASK_VERIFY_ETHERSCAN
      then run_verify_etherscan env taskArgs
      else if verificationSubtask = TASK_VERIFY_SOURCIFY_DISABLED_WARNING
      then run_sourcify_disabled_warning env taskArgs
      else call (Run verificationSubtask) (otherTask (tasks env) verificationSubtask taskArgs))"

text \<open>
  The loop of lines 167-176 over the subtasks, with the variables \<open>errors\<close> and
  \<open>hasErrors\<close> it updates. \<open>errors\<close> is an object used as a dictionary: assigning to a
  key it has replaces the value in place, a new key goes last.
\<close>

fun verification_subtasks_loop ::
  "(task \<Rightarrow> ('w, unit) prog) \<Rightarrow> task list \<Rightarrow> (task \<times> error) list \<times> bool \<Rightarrow>
   ('w, (task \<times> error) list \<times> bool) prog" where
  "verification_subtasks_loop runSubtask [] acc = return acc"
| "verification_subtasks_loop runSubtask (verificationSubtask # rest) acc =
     andThen
       (try_catch
          (andThen (runSubtask verificationSubtask) (\<lambda>_. return acc))
          (\<lambda>error. return (AList.update verificationSubtask error (fst acc), True)))
       (verification_subtasks_loop runSubtask rest)"

text \<open>The action of \<open>TASK_VERIFY\<close> (lines 157-182).\<close>

definition verify_task :: "'w env \<Rightarrow> VerifyTaskArgs \<Rightarrow> ('w, completion) prog" where
  "verify_task env taskArgs =
     (if ta_listNetworks taskArgs
      then andThen (run env TASK_VERIFY_PRINT_SUPPORTED_NETWORKS [] []
                      (verify_print_supported_networks env))
             (\<lambda>_. return Returned)
      else
        andThen (run_get_verification_subtasks env)
          (\<lambda>verificationSubtasks.
        andThen (verification_subtasks_loop (run_verification_subtask env taskArgs)
                   verificationSubtasks ([], False))
          (\<lambda>acc.
        let errors = fst acc; hasErrors = snd acc in
        if hasErrors
        then andThen (call (PrintVerificationErrors errors)
               (printVerificationErrors (utilities env) errors))
               (\<lambda>_.
             andThen (emit (ProcessExit 1)) (\<lambda>_.
             return (Exited 1)))
        else return Returned)))"

subsection \<open>Traces\<close>

text \<open>
  \<open>emits P m\<close>: whatever the state and the result, \<open>m\<close> only appends to the trace, and
  every event it appends satisfies \<open>P\<close>.
\<close>

definition emits :: "(event \<Rightarrow> bool) \<Rightarrow> ('w, 'a) prog \<Rightarrow> bool" where
  "emits P m = (\<forall>s. \<exists>rest. snd (snd (m s)) = snd s @ rest \<and> list_all P rest)"

subsection \<open>What the batch of back-ends has to do\<close>

text \<open>
  The requirement on the main task, written from the specification and not from the loop:
  every back-end is run, in order, each from the state the previous one left, whatever the
  earlier results were. \<open>failures\<close> pairs each back-end that failed with its error.
\<close>

fun run_every_backend ::
  "(task \<Rightarrow> ('w, unit) prog) \<Rightarrow> task list \<Rightarrow> 'w state \<Rightarrow> (error + unit) list \<times> 'w state" where
  "run_every_backend runSubtask [] s = ([], s)"
| "run_every_backend runSubtask (t # ts) s =
     (case runSubtask t s of (r, s1) \<Rightarrow>
        (case run_every_backend runSubtask ts s1 of (rs, s2) \<Rightarrow> (r # rs, s2)))"

definition failures :: "task list \<Rightarrow> (error + unit) list \<Rightarrow> (task \<times> error) list" where
  "failures ts rs = [(t, e). (t, Inl e) \<leftarrow> zip ts rs]"

subsection \<open>A concrete project and explorer\<close>

text \<open>
  An instance of the collaborators, to run the actions on: a project with the contract
  \<open>A.sol:Foo\<close> built by solc 0.8.2, and an explorer whose world is the number of status
  requests it has answered; it answers the \<open>n\<close>-th request with the \<open>n\<close>-th message of a
  given list.
\<close>

definition exampleStatus :: "string \<Rightarrow> EtherscanResponse" where
  "exampleStatus msg =
     \<lparr>message = msg, isFailure = (take 4 msg = ''Fail''), isSuccess = (take 4 msg = ''Pass'')\<rparr>"

definition exampleEtherscan :: "bool \<Rightarrow> string list \<Rightarrow> nat Etherscan" where
  "exampleEtherscan verified statuses =
     \<lparr>isVerified = (\<lambda>address w. (Inr verified, w)),
      getContractUrl = (\<lambda>address w. (Inr (''https://explorer/address/'' @ address), w)),
      verify = (\<lambda>address sourceCode name version arguments w. (Inr (exampleStatus ''guid''), w)),
      getVerificationStatus = (\<lambda>guid w.
        (if w < length statuses then Inr (exampleStatus (statuses ! w))
         else Inl (OtherError ''no answer''), w + 1))\<rparr>"

definition exampleInput :: "string list \<Rightarrow> CompilerInput" where
  "exampleInput files =
     \<lparr>language = ''Solidity'', sources = map (\<lambda>file. (file, ''contract'')) files,
      settings = \<lparr>settings_libraries = None, settings_other = ''optimizer''\<rparr>\<rparr>"

definition exampleContract :: ContractInformation where
  "exampleContract =
     \<lparr>ci_compilerInput = exampleInput [''A.sol'', ''B.sol''],
      ci_solcLongVersion = ''0.8.2+commit.661d1103'', ci_sourceName = ''A.sol'',
      ci_contractName = ''Foo'', ci_abi = ''[]''\<rparr>"

definition exampleExtended :: ExtendedContractInformation where
  "exampleExtended =
     \<lparr>eci_compilerInput = exampleInput [''A.sol'', ''B.sol''],
      eci_solcLongVersion = ''0.8.2+commit.661d1103'', eci_sourceName = ''A.sol'',
      eci_contractName = ''Foo'', eci_abi = ''[]'',
      eci_libraries = [(''L.sol'', [(''L'', ''0x01'')])], eci_undetectableLibraries = [''U'']\<rparr>"

definition exampleBuildInfo :: BuildInfo where
  "exampleBuildInfo =
     \<lparr>solcVersion = ''0.8.2'', buildInfoInput = exampleInput [''A.sol'', ''B.sol''],
      buildInfoOutput = ''''\<rparr>"

definition exampleBytecode :: "string \<Rightarrow> bool \<Rightarrow> Bytecode" where
  "exampleBytecode version ovm =
     \<lparr>bytecode = ''6080'', getVersion = version, isOvm = ovm, hasVersionRange = False\<rparr>"

definition exampleStringify :: "CompilerInput \<Rightarrow> string" where
  "exampleStringify input =
     language input @ concat (map fst (sources input)) @
     (case settings_libraries (settings input) of
        None \<Rightarrow> ''''
      | Some libraries \<Rightarrow> concat (map fst libraries))"

text \<open>
  The parameters: the explorer, the deployed bytecode, what \<open>artifactExists\<close> does, whether
  the artifact's bytecode matches the deployed one, and whether Sourcify is enabled (its
  subtask, defined elsewhere, fails here).
\<close>

definition exampleEnv :: "nat Etherscan \<Rightarrow> Bytecode \<Rightarrow> error + bool \<Rightarrow> bool \<Rightarrow> bool \<Rightarrow> nat env" where
  "exampleEnv explorer deployed exists matches sourcify =
     \<lparr>config = \<lparr>etherscanEnabled = True, etherscanApiKey = ''KEY'',
                etherscanCustomChains = [], sourcifyEnabled = sourcify, solidity = ''0.8.2''\<rparr>,
      networkName = ''sepolia'',
      artifacts =
        \<lparr>artifactExists = (\<lambda>fqn w. (exists, w)),
         getBuildInfo = (\<lambda>fqn w. (Inr (Some exampleBuildInfo), w))\<rparr>,
      utilities =
        \<lparr>sleep = (\<lambda>ms w. (Inr (), w)),
         encodeArguments = (\<lambda>abi sourceName contractName arguments w.
           (Inr (concat arguments), w)),
         getCompilerVersions = (\<lambda>solidity w. (Inr [''0.8.1'', ''0.8.2'', ''0.8.19''], w)),
         printSupportedNetworks = (\<lambda>chains w. (Inr (), w)),
         resolveConstructorArguments = (\<lambda>params module w. (Inr params, w)),
         resolveLibraries = (\<lambda>module w. (Inr [(''L'', ''0x01'')], w)),
         printVerificationErrors = (\<lambda>errors w. (Inr (), w))\<rparr>,
      solcArtifacts =
        \<lparr>extractInferredContractInformation = (\<lambda>network versions deployedBytecode w.
           (Inr exampleContract, w)),
         extractMatchingContractInformation = (\<lambda>fqn buildInfo deployedBytecode w.
           (Inr (if matches then Some exampleContract else None), w)),
         getLibraryInformation = (\<lambda>contractInformation libraries w.
           (Inr \<lparr>li_libraries = [(''L.sol'', libraries)],
                 li_undetectableLibraries = [''U'']\<rparr>, w))\<rparr>,
      statics =
        \<lparr>getCurrentChainConfig = (\<lambda>network chains w. (Inr network, w)),
         fromChainConfig = (\<lambda>apiKey chainConfig w. (Inr explorer, w)),
         getDeployedContractBytecode = (\<lambda>address network w. (Inr deployed, w)),
         getMatchingVersions = (\<lambda>deployedBytecode versions w.
           (Inr (filter (\<lambda>version. version = getVersion deployedBytecode) versions), w))\<rparr>,
      tasks =
        \<lparr>getDependencyGraph = (\<lambda>sourceNames w.
           (Inr \<lparr>getResolvedFiles =
                   map (\<lambda>name. \<lparr>rf_sourceName = name, rf_content = ''contract''\<rparr>)
                     (filter (\<lambda>name. name \<noteq> ''Ghost.sol'') sourceNames @ [''L.sol''])\<rparr>, w)),
         getCompilationJobForFile = (\<lambda>dependencyGraph file w. (Inr (rf_sourceName file), w)),
         getCompilerInput = (\<lambda>compilationJob w. (Inr (exampleInput [compilationJob]), w)),
         otherTask = (\<lambda>t taskArgs w. (Inl (OtherError ''unreachable''), w))\<rparr>,
      importIsAddress = (\<lambda>w. (Inr (\<lambda>address. take 2 address = ''0x''), w)),
      isFullyQualifiedName = (\<lambda>name. CHR '':'' \<in> set name),
      JSON_stringify = exampleStringify,
      validateInputFile = (\<lambda>path w. (Inr (), w))\<rparr>"

definition exampleTaskArgs :: "string option \<Rightarrow> string option \<Rightarrow> VerifyTaskArgs" where
  "exampleTaskArgs address contract =
     \<lparr>ta_address = address, ta_constructorArgsParams = [''07''], ta_constructorArgs = None,
      ta_libraries = LibrariesUndefined, ta_contract = contract, ta_listNetworks = False\<rparr>"

definition exampleArgs :: VerificationArgs where
  "exampleArgs =
     \<lparr>va_address = ''0xabc'', va_constructorArgs = [''07''],
      va_libraries = [(''L'', ''0x01'')], va_contractFQN = Some ''A.sol:Foo''\<rparr>"

section \<open>Properties\<close>

subsection \<open>Running programs\<close>

lemma andThen_Inr: "m s = (Inr a, s') \<Longrightarrow> andThen m f s = f a s'"
  by (simp add: andThen_def)

lemma andThen_Inl: "m s = (Inl e, s') \<Longrightarrow> andThen m f s = (Inl e, s')"
  by (simp add: andThen_def)

lemma call_result: "f w = (r, w') \<Longrightarrow> call ev f (w, tr) = (r, (w', tr @ [ev]))"
  by (simp add: call_def)

lemma emit_result: "emit ev (w, tr) = (Inr (), (w, tr @ [ev]))"
  by (simp add: emit_def)

lemma run_result:
  "resolveValidTaskArguments env t paramDefinitions taskArguments (w, tr @ [Run t]) =
     (Inr (), (w, tr @ [Run t])) \<Longrightarrow>
   run env t paramDefinitions taskArguments action (w, tr) = action (w, tr @ [Run t])"
  by (simp add: run_def andThen_def emit_def)

lemma run_no_params: "run env t [] taskArguments action (w, tr) = action (w, tr @ [Run t])"
  by (simp add: run_result return_def)

text \<open>
  Where every declared parameter is given a value of its type, the check passes and leaves
  no trace: the run is the record and the action.
\<close>

lemmas validation_defs =
  resolveArgument_def checkTypeValidation_def argumentValue_def optionalString_def
  addParam_def addOptionalParam_def addFlag_def return_def andThen_def

lemma run_attempt_verification_result:
  "run_attempt_verification env address compilerInput contractInformation verificationInterface
     encodedConstructorArguments (w, tr) =
   verify_etherscan_attempt_verification env address compilerInput contractInformation
     verificationInterface encodedConstructorArguments
     (w, tr @ [Run TASK_VERIFY_ETHERSCAN_ATTEMPT_VERIFICATION])"
  unfolding run_attempt_verification_def
  by (rule run_result) (simp add: attempt_verification_params_def validation_defs)

lemma run_get_contract_information_result:
  "run_get_contract_information env contractFQN deployedBytecode matchingCompilerVersions
     libraries (w, tr) =
   verify_etherscan_get_contract_information env contractFQN deployedBytecode
     matchingCompilerVersions libraries
     (w, tr @ [Run TASK_VERIFY_ETHERSCAN_GET_CONTRACT_INFORMATION])"
  unfolding run_get_contract_information_def
  by (rule run_result)
     (simp add: get_contract_information_params_def validation_defs split: option.split)

lemma run_get_minimal_input_result:
  "run_get_minimal_input env sourceName (w, tr) =
   verify_etherscan_get_minimal_input env sourceName
     (w, tr @ [Run TASK_VERIFY_ETHERSCAN_GET_MINIMAL_INPUT])"
  unfolding run_get_minimal_input_def
  by (rule run_result) (simp add: get_minimal_input_params_def validation_defs)

lemma run_get_verification_subtasks_result:
  "run_get_verification_subtasks env (w, tr) =
   verify_get_verification_subtasks env (w, tr @ [Run TASK_VERIFY_GET_VERIFICATION_SUBTASKS])"
  by (simp add: run_get_verification_subtasks_def run_no_params)

text \<open>
  \<open>verify:resolve-arguments\<close> declares \<open>constructorArgs\<close> as an input file: given one,
  the runtime asks the file system before the action starts.
\<close>

lemma run_resolve_arguments_result:
  "ta_constructorArgs taskArgs = None \<Longrightarrow>
   run_resolve_arguments env taskArgs (w, tr) =
   verify_resolve_arguments env taskArgs (w, tr @ [Run TASK_VERIFY_RESOLVE_ARGUMENTS])"
  unfolding run_resolve_arguments_def
  by (rule run_result)
     (simp add: verify_resolve_arguments_params_def verifyTaskArguments_def validation_defs
        split: option.split librariesParam.split)

lemma run_resolve_arguments_input_file:
  "ta_constructorArgs taskArgs = Some path \<Longrightarrow>
   run_resolve_arguments env taskArgs (w, tr) =
     (case validateInputFile env path w of
        (Inl e, w') \<Rightarrow>
          (Inl e, (w', tr @ [Run TASK_VERIFY_RESOLVE_ARGUMENTS, ValidateInputFile path]))
      | (Inr u, w') \<Rightarrow>
          verify_resolve_arguments env taskArgs
            (w', tr @ [Run TASK_VERIFY_RESOLVE_ARGUMENTS, ValidateInputFile path]))"
  by (simp add: run_resolve_arguments_def run_def verify_resolve_arguments_params_def
      verifyTaskArguments_def validation_defs emit_def call_def
      split: option.split librariesParam.split prod.split sum.split)

text \<open>
  The Etherscan subtask itself is run with the arguments of the main task: without an
  address the runtime refuses the run and the action does not start; with one, and with
  \<open>constructorArgs\<close> and \<open>contract\<close> strings or absent as they are here, the action runs.
\<close>

lemma run_verify_etherscan_result:
  "run_verify_etherscan env taskArgs (w, tr) =
     (case ta_address taskArgs of
        None \<Rightarrow>
          (Inl (MissingTaskArgumentError ''address'' TASK_VERIFY_ETHERSCAN),
           (w, tr @ [Run TASK_VERIFY_ETHERSCAN]))
      | Some address \<Rightarrow> verify_etherscan env taskArgs (w, tr @ [Run TASK_VERIFY_ETHERSCAN]))"
  by (simp add: run_verify_etherscan_def run_def verify_etherscan_params_def
      verifyTaskArguments_def validation_defs emit_def throw_def
      split: option.split librariesParam.split)

subsection \<open>Every action only appends to the trace\<close>

lemma emitsD:
  "emits P m \<Longrightarrow> m (w, tr) = (r, (w', tr')) \<Longrightarrow> \<exists>rest. tr' = tr @ rest \<and> list_all P rest"
  unfolding emits_def by (metis snd_conv)

lemma emits_return: "emits P (return a)"
  by (simp add: emits_def return_def)

lemma emits_throw: "emits P (throw e)"
  by (simp add: emits_def throw_def)

lemma emits_emit: "P ev \<Longrightarrow> emits P (emit ev)"
  by (simp add: emits_def emit_def)

lemma emits_call: "P ev \<Longrightarrow> emits P (call ev f)"
  by (simp add: emits_def call_def split: prod.splits)

lemma emits_andThen:
  assumes "emits P m" and "\<And>a. emits P (f a)"
  shows "emits P (andThen m f)"
  unfolding emits_def
proof
  fix s
  obtain r s1 where m: "m s = (r, s1)" by (cases "m s")
  from assms(1) obtain rest1 where r1: "snd s1 = snd s @ rest1" "list_all P rest1"
    unfolding emits_def using m by (metis snd_conv)
  show "\<exists>rest. snd (snd (andThen m f s)) = snd s @ rest \<and> list_all P rest"
  proof (cases r)
    case (Inl e)
    then show ?thesis using m r1 by (auto simp: andThen_def)
  next
    case (Inr a)
    from assms(2)[of a] obtain rest2 where
      "snd (snd (f a s1)) = snd s1 @ rest2" "list_all P rest2"
      unfolding emits_def by blast
    then show ?thesis using m r1 Inr by (auto simp: andThen_def)
  qed
qed

lemma emits_try_catch:
  assumes "emits P m" and "\<And>e. emits P (h e)"
  shows "emits P (try_catch m h)"
  unfolding emits_def
proof
  fix s
  obtain r s1 where m: "m s = (r, s1)" by (cases "m s")
  from assms(1) obtain rest1 where r1: "snd s1 = snd s @ rest1" "list_all P rest1"
    unfolding emits_def using m by (metis snd_conv)
  show "\<exists>rest. snd (snd (try_catch m h s)) = snd s @ rest \<and> list_all P rest"
  proof (cases r)
    case (Inr a)
    then show ?thesis using m r1 by (auto simp: try_catch_def)
  next
    case (Inl e)
    from assms(2)[of e] obtain rest2 where
      "snd (snd (h e s1)) = snd s1 @ rest2" "list_all P rest2"
      unfolding emits_def by blast
    then show ?thesis using m r1 Inl by (auto simp: try_catch_def)
  qed
qed

lemma emits_resolveValidTaskArguments:
  assumes "\<And>path. P (ValidateInputFile path)"
  shows "emits P (resolveValidTaskArguments env t paramDefinitions taskArguments)"
proof (induction paramDefinitions)
  case Nil
  show ?case by (simp add: emits_return)
next
  case (Cons paramDefinition rest)
  have "emits P (resolveArgument env t paramDefinition v)" for v
    unfolding resolveArgument_def checkTypeValidation_def
    by (simp add: emits_return emits_throw emits_call assms
        split: paramType.split argument.split)
  with Cons show ?case by (simp add: emits_andThen)
qed

lemma emits_run:
  "P (Run t) \<Longrightarrow> (\<And>path. P (ValidateInputFile path)) \<Longrightarrow> emits P m \<Longrightarrow>
   emits P (run env t paramDefinitions taskArguments m)"
  unfolding run_def
  by (intro emits_andThen emits_emit emits_resolveValidTaskArguments)

lemmas emits_intros =
  emits_return emits_throw emits_emit emits_call emits_andThen emits_try_catch emits_run

lemma emits_attempt:
  assumes "\<And>a b c d e. P (Verify a b c d e)" "\<And>m. P (ConsoleLog m)" "P (Sleep 700)"
    "\<And>g. P (GetVerificationStatus g)" "P (GetContractUrl address)"
  shows "emits P (verify_etherscan_attempt_verification env address compilerInput
           contractInformation etherscan encodedConstructorArguments)"
  unfolding verify_etherscan_attempt_verification_def Let_def
  by (intro emits_intros assms | simp add: emits_intros assms)+

lemma emits_all_attempt: "emits (\<lambda>_. True) (verify_etherscan_attempt_verification env address compilerInput
           contractInformation etherscan encodedConstructorArguments)"
  by (rule emits_attempt) simp_all

lemma emits_all_run_attempt:
  "emits (\<lambda>_. True) (run_attempt_verification env address compilerInput contractInformation
     etherscan encodedConstructorArguments)"
  unfolding run_attempt_verification_def
  by (rule emits_run) (simp_all add: emits_all_attempt)

lemma emits_all_submission: "emits (\<lambda>_. True) (verify_etherscan_submission env address minimalInput
           contractInformation etherscan encodedConstructorArguments)"
  unfolding verify_etherscan_submission_def
  by (intro emits_intros emits_all_run_attempt
      | simp add: emits_intros emits_all_run_attempt)+

lemma emits_all_get_minimal_input: "emits (\<lambda>_. True) (verify_etherscan_get_minimal_input env sourceName)"
  unfolding verify_etherscan_get_minimal_input_def Let_def
  by (intro emits_intros | simp add: emits_intros)+

lemma emits_all_get_contract_information:
  "emits (\<lambda>_. True) (verify_etherscan_get_contract_information env contractFQN deployedBytecode
       matchingCompilerVersions libraries)"
  unfolding verify_etherscan_get_contract_information_def
  by (intro emits_intros | simp add: emits_intros split: option.split)+

lemma emits_all_run_get_contract_information:
  "emits (\<lambda>_. True) (run_get_contract_information env contractFQN deployedBytecode
     matchingCompilerVersions libraries)"
  unfolding run_get_contract_information_def
  by (rule emits_run) (simp_all add: emits_all_get_contract_information)

lemma emits_all_run_get_minimal_input:
  "emits (\<lambda>_. True) (run_get_minimal_input env sourceName)"
  unfolding run_get_minimal_input_def
  by (rule emits_run) (simp_all add: emits_all_get_minimal_input)

lemma emits_all_resolution:
  "emits (\<lambda>_. True) (verify_etherscan_resolution env args etherscan deployedBytecode matchingCompilerVersions)"
  unfolding verify_etherscan_resolution_def
  by (intro emits_intros emits_all_run_get_contract_information
        emits_all_run_get_minimal_input emits_all_submission | simp)+

lemma emits_all_unverified:
  "emits (\<lambda>_. True) (verify_etherscan_unverified env args etherscan)"
  unfolding verify_etherscan_unverified_def
  by (intro emits_intros emits_all_resolution | simp add: emits_intros emits_all_resolution)+

lemma emits_all_resolve_arguments:
  "emits (\<lambda>_. True) (verify_resolve_arguments env taskArgs)"
  unfolding verify_resolve_arguments_def
  by (intro emits_intros | simp add: emits_intros split: option.split librariesParam.split)+

lemma emits_all_run_resolve_arguments:
  "emits (\<lambda>_. True) (run_resolve_arguments env taskArgs)"
  unfolding run_resolve_arguments_def
  by (rule emits_run) (simp_all add: emits_all_resolve_arguments)

lemma emits_all_verify_etherscan:
  "emits (\<lambda>_. True) (verify_etherscan env taskArgs)"
  unfolding verify_etherscan_def
  by (intro emits_intros emits_all_run_resolve_arguments emits_all_unverified
      | simp add: emits_intros emits_all_unverified)+

lemma emits_all_run_verification_subtask:
  "emits (\<lambda>_. True) (run_verification_subtask env taskArgs t)"
proof -
  have "emits (\<lambda>_. True) (run_verify_etherscan env taskArgs)"
    unfolding run_verify_etherscan_def
    by (rule emits_run) (simp_all add: emits_all_verify_etherscan)
  moreover have "emits (\<lambda>_. True) (run_sourcify_disabled_warning env taskArgs)"
    unfolding run_sourcify_disabled_warning_def verify_sourcify_disabled_warning_def
    by (rule emits_run) (simp_all add: emits_emit)
  ultimately show ?thesis
    unfolding run_verification_subtask_def by (simp add: emits_call)
qed

lemma run_andThen_trace:
  assumes "\<And>w tr. runAction (w, tr) = m (w, tr @ [Run t])" and "emits P (andThen m f)"
  shows "\<exists>r w' rest. andThen runAction f (w, tr) = (r, (w', tr @ Run t # rest))"
proof -
  have eq: "andThen runAction f (w, tr) = andThen m f (w, tr @ [Run t])"
    by (simp add: andThen_def assms(1))
  obtain r w' tr' where res: "andThen m f (w, tr @ [Run t]) = (r, (w', tr'))"
    by (metis surj_pair)
  from emitsD[OF assms(2) res] obtain rest where "tr' = (tr @ [Run t]) @ rest" by blast
  with eq res show ?thesis by simp
qed

lemma run_starts_with_run:
  assumes "emits P action" and "\<And>path. P (ValidateInputFile path)"
  shows "\<exists>rest. snd (snd (run env t paramDefinitions taskArguments action (w, tr))) =
           tr @ Run t # rest"
proof -
  let ?k = "andThen (resolveValidTaskArguments env t paramDefinitions taskArguments)
              (\<lambda>_. action)"
  have k: "emits P ?k"
    by (intro emits_andThen emits_resolveValidTaskArguments assms)
  obtain r w' tr' where res: "?k (w, tr @ [Run t]) = (r, (w', tr'))"
    by (metis surj_pair)
  from emitsD[OF k res] obtain rest where rest: "tr' = (tr @ [Run t]) @ rest" by blast
  have "run env t paramDefinitions taskArguments action (w, tr) = ?k (w, tr @ [Run t])"
    by (simp add: run_def andThen_def emit_def)
  with res rest show ?thesis by simp
qed




subsection \<open>The loop over the back-ends\<close>

lemma failures_simps:
  "failures [] rs = []"
  "failures (t # ts) (Inl e # rs) = (t, e) # failures ts rs"
  "failures (t # ts) (Inr u # rs) = failures ts rs"
  by (simp_all add: failures_def)

lemma update_fresh: "k \<notin> fst ` set al \<Longrightarrow> AList.update k v al = al @ [(k, v)]"
  by (induction al) auto

lemma loop_runs_every_backend:
  "run_every_backend runSubtask ts s = (rs, s') \<Longrightarrow> distinct ts \<Longrightarrow>
   set ts \<inter> fst ` set errors = {} \<Longrightarrow>
   verification_subtasks_loop runSubtask ts (errors, hasErrors) s =
     (Inr (errors @ failures ts rs, hasErrors \<or> failures ts rs \<noteq> []), s')"
proof (induction ts arbitrary: s rs s' errors hasErrors)
  case Nil
  then show ?case by (simp add: return_def failures_simps)
next
  case (Cons t ts)
  obtain r s1 where r: "runSubtask t s = (r, s1)" by (cases "runSubtask t s")
  obtain rs1 s2 where rest: "run_every_backend runSubtask ts s1 = (rs1, s2)"
    by (cases "run_every_backend runSubtask ts s1")
  from Cons.prems(1) r rest have rs: "rs = r # rs1" and s': "s' = s2" by auto
  from Cons.prems(2) have dist: "distinct ts" and fresh: "t \<notin> set ts" by auto
  show ?case
  proof (cases r)
    case (Inr u)
    from Cons.prems(3) have "set ts \<inter> fst ` set errors = {}" by auto
    from Cons.IH[OF rest dist this, of hasErrors] r Inr rs s'
    show ?thesis by (simp add: andThen_def try_catch_def return_def failures_simps)
  next
    case (Inl e)
    from Cons.prems(3) have new: "t \<notin> fst ` set errors" by auto
    have "set ts \<inter> fst ` set (errors @ [(t, e)]) = {}"
      using Cons.prems(3) fresh by auto
    from Cons.IH[OF rest dist this, of True] r Inl rs s' new
    show ?thesis
      by (simp add: andThen_def try_catch_def return_def failures_simps update_fresh)
  qed
qed

lemma length_run_every_backend:
  "run_every_backend runSubtask ts s = (rs, s') \<Longrightarrow> length rs = length ts"
  by (induction ts arbitrary: s rs) (auto split: prod.splits)

lemma run_every_backend_trace:
  assumes "\<And>t. \<forall>s. \<exists>rest. snd (snd (runSubtask t s)) = snd s @ Run t # rest"
  shows "run_every_backend runSubtask ts s = (rs, s') \<Longrightarrow>
         (\<exists>rest. snd s' = snd s @ rest \<and> (\<forall>t\<in>set ts. Run t \<in> set rest))"
proof (induction ts arbitrary: s rs s')
  case Nil
  then show ?case by simp
next
  case (Cons t ts)
  obtain r s1 where r: "runSubtask t s = (r, s1)" by (cases "runSubtask t s")
  obtain rs1 s2 where rest: "run_every_backend runSubtask ts s1 = (rs1, s2)"
    by (cases "run_every_backend runSubtask ts s1")
  from Cons.prems r rest have s': "s' = s2" by auto
  from assms[of t] r obtain rest1 where r1: "snd s1 = snd s @ Run t # rest1"
    by (metis snd_conv)
  from Cons.IH[OF rest] obtain rest2 where
    r2: "snd s2 = snd s1 @ rest2" "\<forall>t\<in>set ts. Run t \<in> set rest2" by blast
  have "snd s' = snd s @ (Run t # rest1 @ rest2)" using s' r1 r2 by simp
  moreover have "\<forall>u\<in>set (t # ts). Run u \<in> set (Run t # rest1 @ rest2)" using r2 by auto
  ultimately show ?case by blast
qed

lemma run_verification_subtask_starts_with_run:
  "\<forall>s. \<exists>rest. snd (snd (run_verification_subtask env taskArgs t s)) = snd s @ Run t # rest"
proof
  fix s :: "'a state"
  obtain w tr where s: "s = (w, tr)" by (cases s)
  have etherscan: "\<exists>rest. snd (snd (run_verify_etherscan env taskArgs (w, tr))) =
      tr @ Run TASK_VERIFY_ETHERSCAN # rest"
    unfolding run_verify_etherscan_def
    by (rule run_starts_with_run[where P = "\<lambda>_. True"])
       (simp_all add: emits_all_verify_etherscan)
  have warning: "\<exists>rest. snd (snd (run_sourcify_disabled_warning env taskArgs (w, tr))) =
      tr @ Run TASK_VERIFY_SOURCIFY_DISABLED_WARNING # rest"
    by (simp add: run_sourcify_disabled_warning_def run_no_params
        verify_sourcify_disabled_warning_def emit_def)
  from etherscan warning s
  show "\<exists>rest. snd (snd (run_verification_subtask env taskArgs t s)) = snd s @ Run t # rest"
    by (auto simp: run_verification_subtask_def call_def split: prod.splits)
qed

lemma get_verification_subtasks_result:
  "run_get_verification_subtasks env s = (r, s1) \<Longrightarrow>
   \<exists>ts. r = Inr ts \<and> distinct ts \<and>
     ts = (if etherscanEnabled (config env) then [TASK_VERIFY_ETHERSCAN] else []) @
          (if sourcifyEnabled (config env) then [TASK_VERIFY_SOURCIFY]
           else [TASK_VERIFY_SOURCIFY_DISABLED_WARNING])"
  by (cases s)
     (auto simp: run_get_verification_subtasks_result verify_get_verification_subtasks_def
        Let_def andThen_def emit_def return_def split: if_splits)

subsection \<open>Named mode and alternate-VM bytecode\<close>

lemma named_mode_ovm_ignores_versions:
  assumes "isOvm deployedBytecode"
  shows "verify_etherscan_get_contract_information env (Some fqn) deployedBytecode
           versions libraries s =
         verify_etherscan_get_contract_information env (Some fqn) deployedBytecode
           versions' libraries s"
  using assms
  by (auto simp: verify_etherscan_get_contract_information_def andThen_def try_catch_def
      call_def return_def throw_def split: prod.splits sum.splits option.splits)

subsection \<open>Evaluating the concrete project\<close>

lemmas program_defs =
  return_def throw_def andThen_def try_catch_def emit_def call_def Let_def
  run_attempt_verification_result run_get_contract_information_result
  run_get_minimal_input_result run_get_verification_subtasks_result
  run_verify_etherscan_result

lemmas example_defs =
  exampleStatus_def exampleEtherscan_def exampleInput_def exampleContract_def
  exampleExtended_def exampleBuildInfo_def exampleBytecode_def exampleStringify_def
  exampleEnv_def exampleTaskArgs_def exampleArgs_def withLibraries_def contractFullName_def
  compilerVersionTag_def

section \<open>The claims\<close>



text \<open>
  Claim C2 (lines 549-557). When the source has been submitted and the status the explorer
  reports is neither a failure nor a success, the attempt throws
  \<open>VerificationAPIUnexpectedMessageError\<close> with the reported message. The trace is one
  submission and one status request: the status is not asked for again, and the
  Etherscan subtask, which gets this outcome from its first attempt, makes no second one.
\<close>

theorem unexpected_status_raises_and_is_not_retried:
  assumes "verify etherscan address
             (JSON_stringify env (withLibraries compilerInput (eci_libraries contractInformation)))
             (contractFullName contractInformation) (compilerVersionTag contractInformation)
             encodedConstructorArguments w = (Inr response, w1)"
    and "sleep (utilities env) 700 w1 = (Inr (), w2)"
    and "getVerificationStatus etherscan (message response) w2 = (Inr verificationStatus, w3)"
    and "\<not> isFailure verificationStatus" and "\<not> isSuccess verificationStatus"
  shows "verify_etherscan_attempt_verification env address compilerInput contractInformation
           etherscan encodedConstructorArguments (w, tr) =
         (Inl (VerificationAPIUnexpectedMessageError (message verificationStatus)),
          (w3, tr @ [Verify address
             (JSON_stringify env (withLibraries compilerInput (eci_libraries contractInformation)))
             (contractFullName contractInformation) (compilerVersionTag contractInformation)
             encodedConstructorArguments,
             ConsoleLog (submittedMessage (eci_sourceName contractInformation)
                                   (eci_contractName contractInformation) address),
             Sleep 700, GetVerificationStatus (message response)]))
       \<and> verify_etherscan_submission env address compilerInput contractInformation
           etherscan encodedConstructorArguments (w, tr) =
         (Inl (VerificationAPIUnexpectedMessageError (message verificationStatus)),
          (w3, tr @ [Run TASK_VERIFY_ETHERSCAN_ATTEMPT_VERIFICATION,
             Verify address
             (JSON_stringify env (withLibraries compilerInput (eci_libraries contractInformation)))
             (contractFullName contractInformation) (compilerVersionTag contractInformation)
             encodedConstructorArguments,
             ConsoleLog (submittedMessage (eci_sourceName contractInformation)
                                   (eci_contractName contractInformation) address),
             Sleep 700, GetVerificationStatus (message response)]))"
  using assms
  by (simp add: verify_etherscan_submission_def run_attempt_verification_result
      verify_etherscan_attempt_verification_def Let_def andThen_def call_def emit_def throw_def)

theorem unexpected_status_witness:
  "verify (exampleEtherscan False [''Pending in queue'']) ''0xabc''
     (JSON_stringify
        (exampleEnv (exampleEtherscan False [''Pending in queue''])
           (exampleBytecode ''0.8.2'' False) (Inr True) True False)
        (withLibraries (exampleInput [''A.sol'']) (eci_libraries exampleExtended)))
     (contractFullName exampleExtended) (compilerVersionTag exampleExtended) ''07'' 0 =
     (Inr (exampleStatus ''guid''), 0)
   \<and> sleep (utilities (exampleEnv (exampleEtherscan False [''Pending in queue''])
           (exampleBytecode ''0.8.2'' False) (Inr True) True False)) 700 0 = (Inr (), 0)
   \<and> getVerificationStatus (exampleEtherscan False [''Pending in queue''])
        (message (exampleStatus ''guid'')) 0 = (Inr (exampleStatus ''Pending in queue''), 1)
   \<and> \<not> isFailure (exampleStatus ''Pending in queue'')
   \<and> \<not> isSuccess (exampleStatus ''Pending in queue'')
   \<and> verify_etherscan_submission
        (exampleEnv (exampleEtherscan False [''Pending in queue''])
           (exampleBytecode ''0.8.2'' False) (Inr True) True False)
        ''0xabc'' (exampleInput [''A.sol'']) exampleExtended
        (exampleEtherscan False [''Pending in queue'']) ''07'' (0, []) =
      (Inl (VerificationAPIUnexpectedMessageError ''Pending in queue''),
       (1, [Run TASK_VERIFY_ETHERSCAN_ATTEMPT_VERIFICATION,
            Verify ''0xabc'' ''SolidityA.solL.sol'' ''A.sol:Foo'' ''v0.8.2+commit.661d1103'' ''07'',
            ConsoleLog (submittedMessage ''A.sol'' ''Foo'' ''0xabc''),
            Sleep 700, GetVerificationStatus ''guid'']))"
proof -
  let ?X = "exampleEtherscan False [''Pending in queue'']"
  let ?E = "exampleEnv ?X (exampleBytecode ''0.8.2'' False) (Inr True) True False"
  have h1: "verify ?X ''0xabc''
     (JSON_stringify ?E (withLibraries (exampleInput [''A.sol'']) (eci_libraries exampleExtended)))
     (contractFullName exampleExtended) (compilerVersionTag exampleExtended) ''07'' 0 =
     (Inr (exampleStatus ''guid''), 0)"
    by (simp add: exampleEtherscan_def)
  have h2: "sleep (utilities ?E) 700 0 = (Inr (), 0)"
    by (simp add: exampleEnv_def)
  have h3: "getVerificationStatus ?X (message (exampleStatus ''guid'')) 0 =
      (Inr (exampleStatus ''Pending in queue''), 1)"
    by (simp add: exampleEtherscan_def)
  have h4: "\<not> isFailure (exampleStatus ''Pending in queue'')"
    and h5: "\<not> isSuccess (exampleStatus ''Pending in queue'')"
    by (simp_all add: exampleStatus_def)
  from unexpected_status_raises_and_is_not_retried[OF h1 h2 h3 h4 h5, of "[]"]
  have "verify_etherscan_submission ?E ''0xabc'' (exampleInput [''A.sol'']) exampleExtended ?X
          ''07'' (0, []) =
      (Inl (VerificationAPIUnexpectedMessageError ''Pending in queue''),
       (1, [Run TASK_VERIFY_ETHERSCAN_ATTEMPT_VERIFICATION,
            Verify ''0xabc'' ''SolidityA.solL.sol'' ''A.sol:Foo'' ''v0.8.2+commit.661d1103'' ''07'',
            ConsoleLog (submittedMessage ''A.sol'' ''Foo'' ''0xabc''),
            Sleep 700, GetVerificationStatus ''guid'']))"
    by (simp add: example_defs)
  with h1 h2 h3 h4 h5 show ?thesis by blast
qed

text \<open>
  Claim C3 (lines 274-284). When no configured compiler version matches the deployed
  bytecode: if the bytecode is not OVM bytecode, \<open>CompilerVersionsMismatchError\<close> is thrown
  with the configured versions, the version read from the bytecode and the network name,
  and nothing further is done; if it is OVM bytecode, nothing is thrown there and the
  subtask goes on exactly as lines 286-352 do with an empty list of matching versions,
  starting with the run of the contract-information subtask.
\<close>

theorem compiler_versions_mismatch_unless_ovm:
  assumes "getCompilerVersions (utilities env) (solidity (config env)) w =
             (Inr configCompilerVersions, w1)"
    and "getDeployedContractBytecode (statics env) (va_address args) (networkName env) w1 =
           (Inr deployedBytecode, w2)"
    and "getMatchingVersions (statics env) deployedBytecode configCompilerVersions w2 =
           (Inr [], w3)"
  shows "(\<not> isOvm deployedBytecode \<longrightarrow>
           verify_etherscan_unverified env args etherscan (w, tr) =
           (Inl (CompilerVersionsMismatchError configCompilerVersions
                   (getVersion deployedBytecode) (networkName env)),
            (w3, tr @ [GetCompilerVersions, GetDeployedContractBytecode (va_address args),
                       GetMatchingVersions configCompilerVersions])))
       \<and> (isOvm deployedBytecode \<longrightarrow>
           verify_etherscan_unverified env args etherscan (w, tr) =
           verify_etherscan_resolution env args etherscan deployedBytecode []
             (w3, tr @ [GetCompilerVersions, GetDeployedContractBytecode (va_address args),
                        GetMatchingVersions configCompilerVersions]) \<and>
           (\<exists>r w' rest.
              verify_etherscan_unverified env args etherscan (w, tr) =
              (r, (w', tr @ [GetCompilerVersions, GetDeployedContractBytecode (va_address args),
                             GetMatchingVersions configCompilerVersions,
                             Run TASK_VERIFY_ETHERSCAN_GET_CONTRACT_INFORMATION] @ rest))))"
proof -
  let ?tr3 = "tr @ [GetCompilerVersions, GetDeployedContractBytecode (va_address args),
                    GetMatchingVersions configCompilerVersions]"
  have step: "verify_etherscan_unverified env args etherscan (w, tr) =
      (if \<not> isOvm deployedBytecode
       then (Inl (CompilerVersionsMismatchError configCompilerVersions
                   (getVersion deployedBytecode) (networkName env)), (w3, ?tr3))
       else verify_etherscan_resolution env args etherscan deployedBytecode [] (w3, ?tr3))"
    using assms
    by (simp add: verify_etherscan_unverified_def andThen_def call_def throw_def)
  have "\<exists>r w' rest. verify_etherscan_resolution env args etherscan deployedBytecode []
      (w3, ?tr3) = (r, (w', ?tr3 @ Run TASK_VERIFY_ETHERSCAN_GET_CONTRACT_INFORMATION # rest))"
    unfolding verify_etherscan_resolution_def
  proof (rule run_andThen_trace[where P = "\<lambda>_. True"
        and m = "verify_etherscan_get_contract_information env (va_contractFQN args)
                   deployedBytecode [] (va_libraries args)"])
    show "run_get_contract_information env (va_contractFQN args) deployedBytecode []
            (va_libraries args) (w', tr') =
          verify_etherscan_get_contract_information env (va_contractFQN args)
            deployedBytecode [] (va_libraries args)
            (w', tr' @ [Run TASK_VERIFY_ETHERSCAN_GET_CONTRACT_INFORMATION])" for w' tr'
      by (rule run_get_contract_information_result)
  qed (intro emits_intros emits_all_get_contract_information
         emits_all_run_get_minimal_input emits_all_submission | simp)+
  with step show ?thesis by auto
qed

theorem compiler_versions_mismatch_witness:
  "getCompilerVersions
     (utilities (exampleEnv (exampleEtherscan False []) (exampleBytecode ''0.7.0'' False)
        (Inr True) True False))
     (solidity (config (exampleEnv (exampleEtherscan False []) (exampleBytecode ''0.7.0'' False)
        (Inr True) True False))) 0 =
     (Inr [''0.8.1'', ''0.8.2'', ''0.8.19''], 0)
   \<and> getDeployedContractBytecode
        (statics (exampleEnv (exampleEtherscan False []) (exampleBytecode ''0.7.0'' False)
           (Inr True) True False))
        (va_address exampleArgs)
        (networkName (exampleEnv (exampleEtherscan False []) (exampleBytecode ''0.7.0'' False)
           (Inr True) True False)) 0 =
      (Inr (exampleBytecode ''0.7.0'' False), 0)
   \<and> getMatchingVersions
        (statics (exampleEnv (exampleEtherscan False []) (exampleBytecode ''0.7.0'' False)
           (Inr True) True False))
        (exampleBytecode ''0.7.0'' False) [''0.8.1'', ''0.8.2'', ''0.8.19''] 0 = (Inr [], 0)
   \<and> \<not> isOvm (exampleBytecode ''0.7.0'' False)
   \<and> verify_etherscan_unverified
        (exampleEnv (exampleEtherscan False []) (exampleBytecode ''0.7.0'' False)
           (Inr True) True False)
        exampleArgs (exampleEtherscan False []) (0, []) =
      (Inl (CompilerVersionsMismatchError [''0.8.1'', ''0.8.2'', ''0.8.19''] ''0.7.0'' ''sepolia''),
       (0, [GetCompilerVersions, GetDeployedContractBytecode ''0xabc'',
            GetMatchingVersions [''0.8.1'', ''0.8.2'', ''0.8.19'']]))"
proof -
  let ?X = "exampleEtherscan False []"
  let ?E = "exampleEnv ?X (exampleBytecode ''0.7.0'' False) (Inr True) True False"
  have h1: "getCompilerVersions (utilities ?E) (solidity (config ?E)) 0 =
      (Inr [''0.8.1'', ''0.8.2'', ''0.8.19''], 0)"
    by (simp add: exampleEnv_def)
  have h2: "getDeployedContractBytecode (statics ?E) (va_address exampleArgs) (networkName ?E) 0 =
      (Inr (exampleBytecode ''0.7.0'' False), 0)"
    by (simp add: exampleEnv_def)
  have h3: "getMatchingVersions (statics ?E) (exampleBytecode ''0.7.0'' False)
      [''0.8.1'', ''0.8.2'', ''0.8.19''] 0 = (Inr [], 0)"
    by (simp add: exampleEnv_def exampleBytecode_def)
  have h4: "\<not> isOvm (exampleBytecode ''0.7.0'' False)"
    by (simp add: exampleBytecode_def)
  from compiler_versions_mismatch_unless_ovm[OF h1 h2 h3, of ?X "[]"] h4
  have "verify_etherscan_unverified ?E exampleArgs ?X (0, []) =
      (Inl (CompilerVersionsMismatchError [''0.8.1'', ''0.8.2'', ''0.8.19''] ''0.7.0'' ''sepolia''),
       (0, [GetCompilerVersions, GetDeployedContractBytecode ''0xabc'',
            GetMatchingVersions [''0.8.1'', ''0.8.2'', ''0.8.19'']]))"
    by (simp add: exampleEnv_def exampleBytecode_def exampleArgs_def)
  with h1 h2 h3 h4 show ?thesis by blast
qed

theorem compiler_versions_ovm_example:
  "verify_etherscan_unverified
     (exampleEnv (exampleEtherscan False [''Pass - Verified'']) (exampleBytecode ''0.7.0'' True)
        (Inr True) True False)
     exampleArgs (exampleEtherscan False [''Pass - Verified'']) (0, []) =
   (Inr (),
    (1, [GetCompilerVersions, GetDeployedContractBytecode ''0xabc'',
         GetMatchingVersions [''0.8.1'', ''0.8.2'', ''0.8.19''],
         Run TASK_VERIFY_ETHERSCAN_GET_CONTRACT_INFORMATION,
         ArtifactExists ''A.sol:Foo'', GetBuildInfo ''A.sol:Foo'',
         ExtractMatchingContractInformation ''A.sol:Foo'', GetLibraryInformation,
         Run TASK_VERIFY_ETHERSCAN_GET_MINIMAL_INPUT,
         Run TASK_COMPILE_SOLIDITY_GET_DEPENDENCY_GRAPH,
         Run TASK_COMPILE_SOLIDITY_GET_COMPILATION_JOB_FOR_FILE,
         Run TASK_COMPILE_SOLIDITY_GET_COMPILER_INPUT,
         EncodeArguments ''A.sol'' ''Foo'' [''07''],
         Run TASK_VERIFY_ETHERSCAN_ATTEMPT_VERIFICATION,
         Verify ''0xabc'' ''SolidityA.solL.sol'' ''A.sol:Foo'' ''v0.8.2+commit.661d1103'' ''07'',
         ConsoleLog (submittedMessage ''A.sol'' ''Foo'' ''0xabc''),
         Sleep 700, GetVerificationStatus ''guid'', GetContractUrl ''0xabc'',
         ConsoleLog (verifiedMessage ''Foo'' ''https://explorer/address/0xabc'')]))"
  by (simp add: program_defs example_defs verify_etherscan_unverified_def
      verify_etherscan_resolution_def verify_etherscan_get_contract_information_def
      verify_etherscan_get_minimal_input_def verify_etherscan_submission_def
      verify_etherscan_attempt_verification_def)

text \<open>
  Claim C4 (lines 438-449). In named mode, when the artifact exists and its build info was
  produced by a compiler version that is not among the matching versions: if the deployed
  bytecode is not OVM bytecode, \<open>BuildInfoCompilerVersionMismatchError\<close> is thrown with the
  contract name, the version read from the bytecode, whether that is a range, the version
  of the build info and the network name, before any bytecode is compared. If it is OVM
  bytecode the check is passed over: the next thing done is the comparison of the
  bytecode, and the outcome is the one the comparison gives, an exception it throws,
  \<open>DeployedBytecodeMismatchError\<close> when nothing matches, or the contract information;
  the matching versions play no part, the subtask does the same whatever list it is
  given.
\<close>

theorem build_info_version_mismatch_raises:
  assumes "artifactExists (artifacts env) fqn w = (Inr True, w1)"
    and "getBuildInfo (artifacts env) fqn w1 = (Inr (Some buildInfo), w2)"
    and "solcVersion buildInfo \<notin> set matchingCompilerVersions"
  shows "(\<not> isOvm deployedBytecode \<longrightarrow>
          verify_etherscan_get_contract_information env (Some fqn) deployedBytecode
            matchingCompilerVersions libraries (w, tr) =
          (Inl (BuildInfoCompilerVersionMismatchError fqn (getVersion deployedBytecode)
                  (hasVersionRange deployedBytecode) (solcVersion buildInfo) (networkName env)),
           (w2, tr @ [ArtifactExists fqn, GetBuildInfo fqn])))
       \<and> (isOvm deployedBytecode \<longrightarrow>
          (\<forall>versions.
             verify_etherscan_get_contract_information env (Some fqn) deployedBytecode
               matchingCompilerVersions libraries (w, tr) =
             verify_etherscan_get_contract_information env (Some fqn) deployedBytecode
               versions libraries (w, tr)) \<and>
          (\<exists>r w' rest.
             verify_etherscan_get_contract_information env (Some fqn) deployedBytecode
               matchingCompilerVersions libraries (w, tr) =
             (r, (w', tr @ [ArtifactExists fqn, GetBuildInfo fqn,
                            ExtractMatchingContractInformation fqn] @ rest))) \<and>
          (\<forall>e w3.
             extractMatchingContractInformation (solcArtifacts env) fqn buildInfo
               deployedBytecode w2 = (Inl e, w3) \<longrightarrow>
             verify_etherscan_get_contract_information env (Some fqn) deployedBytecode
               matchingCompilerVersions libraries (w, tr) =
             (Inl e, (w3, tr @ [ArtifactExists fqn, GetBuildInfo fqn,
                                ExtractMatchingContractInformation fqn]))) \<and>
          (\<forall>w3.
             extractMatchingContractInformation (solcArtifacts env) fqn buildInfo
               deployedBytecode w2 = (Inr None, w3) \<longrightarrow>
             verify_etherscan_get_contract_information env (Some fqn) deployedBytecode
               matchingCompilerVersions libraries (w, tr) =
             (Inl (DeployedBytecodeMismatchError (networkName env) fqn),
              (w3, tr @ [ArtifactExists fqn, GetBuildInfo fqn,
                         ExtractMatchingContractInformation fqn]))) \<and>
          (\<forall>contractInformation w3 libraryInformation w4.
             extractMatchingContractInformation (solcArtifacts env) fqn buildInfo
               deployedBytecode w2 = (Inr (Some contractInformation), w3) \<longrightarrow>
             getLibraryInformation (solcArtifacts env) contractInformation libraries w3 =
               (Inr libraryInformation, w4) \<longrightarrow>
             verify_etherscan_get_contract_information env (Some fqn) deployedBytecode
               matchingCompilerVersions libraries (w, tr) =
             (Inr \<lparr>eci_compilerInput = ci_compilerInput contractInformation,
                   eci_solcLongVersion = ci_solcLongVersion contractInformation,
                   eci_sourceName = ci_sourceName contractInformation,
                   eci_contractName = ci_contractName contractInformation,
                   eci_abi = ci_abi contractInformation,
                   eci_libraries = li_libraries libraryInformation,
                   eci_undetectableLibraries = li_undetectableLibraries libraryInformation\<rparr>,
              (w4, tr @ [ArtifactExists fqn, GetBuildInfo fqn,
                         ExtractMatchingContractInformation fqn, GetLibraryInformation]))))"
proof -
  note defs = verify_etherscan_get_contract_information_def andThen_def try_catch_def
    call_def return_def throw_def
  have mismatch: "verify_etherscan_get_contract_information env (Some fqn) deployedBytecode
      matchingCompilerVersions libraries (w, tr) =
    (Inl (BuildInfoCompilerVersionMismatchError fqn (getVersion deployedBytecode)
            (hasVersionRange deployedBytecode) (solcVersion buildInfo) (networkName env)),
     (w2, tr @ [ArtifactExists fqn, GetBuildInfo fqn]))"
    if "\<not> isOvm deployedBytecode"
    using assms that by (simp add: defs)
  have same: "verify_etherscan_get_contract_information env (Some fqn) deployedBytecode
      matchingCompilerVersions libraries (w, tr) =
    verify_etherscan_get_contract_information env (Some fqn) deployedBytecode
      versions libraries (w, tr)"
    if "isOvm deployedBytecode" for versions
    using that by (rule named_mode_ovm_ignores_versions)
  have reached: "\<exists>r w' rest.
      verify_etherscan_get_contract_information env (Some fqn) deployedBytecode
        matchingCompilerVersions libraries (w, tr) =
      (r, (w', tr @ [ArtifactExists fqn, GetBuildInfo fqn,
                     ExtractMatchingContractInformation fqn] @ rest))"
    if "isOvm deployedBytecode"
    using assms that
    by (auto simp: defs split: prod.splits sum.splits option.splits)
  have thrown: "verify_etherscan_get_contract_information env (Some fqn) deployedBytecode
      matchingCompilerVersions libraries (w, tr) =
    (Inl e, (w3, tr @ [ArtifactExists fqn, GetBuildInfo fqn,
                       ExtractMatchingContractInformation fqn]))"
    if "isOvm deployedBytecode"
      and "extractMatchingContractInformation (solcArtifacts env) fqn buildInfo
             deployedBytecode w2 = (Inl e, w3)"
    for e w3
    using assms that by (simp add: defs)
  have unmatched: "verify_etherscan_get_contract_information env (Some fqn) deployedBytecode
      matchingCompilerVersions libraries (w, tr) =
    (Inl (DeployedBytecodeMismatchError (networkName env) fqn),
     (w3, tr @ [ArtifactExists fqn, GetBuildInfo fqn,
                ExtractMatchingContractInformation fqn]))"
    if "isOvm deployedBytecode"
      and "extractMatchingContractInformation (solcArtifacts env) fqn buildInfo
             deployedBytecode w2 = (Inr None, w3)"
    for w3
    using assms that by (simp add: defs)
  have found: "verify_etherscan_get_contract_information env (Some fqn) deployedBytecode
      matchingCompilerVersions libraries (w, tr) =
    (Inr \<lparr>eci_compilerInput = ci_compilerInput contractInformation,
          eci_solcLongVersion = ci_solcLongVersion contractInformation,
          eci_sourceName = ci_sourceName contractInformation,
          eci_contractName = ci_contractName contractInformation,
          eci_abi = ci_abi contractInformation,
          eci_libraries = li_libraries libraryInformation,
          eci_undetectableLibraries = li_undetectableLibraries libraryInformation\<rparr>,
     (w4, tr @ [ArtifactExists fqn, GetBuildInfo fqn,
                ExtractMatchingContractInformation fqn, GetLibraryInformation]))"
    if "isOvm deployedBytecode"
      and "extractMatchingContractInformation (solcArtifacts env) fqn buildInfo
             deployedBytecode w2 = (Inr (Some contractInformation), w3)"
      and "getLibraryInformation (solcArtifacts env) contractInformation libraries w3 =
             (Inr libraryInformation, w4)"
    for contractInformation w3 libraryInformation w4
    using assms that by (simp add: defs)
  show ?thesis
    apply (intro conjI impI allI)
         apply (erule mismatch)
        apply (erule same)
       apply (erule reached)
      apply (erule (1) thrown)
     apply (erule (1) unmatched)
    apply (erule (2) found)
    done
qed

theorem build_info_version_mismatch_witness:
  "artifactExists
     (artifacts (exampleEnv (exampleEtherscan False []) (exampleBytecode ''0.8.1'' False)
        (Inr True) True False)) ''A.sol:Foo'' 0 = (Inr True, 0)
   \<and> getBuildInfo
        (artifacts (exampleEnv (exampleEtherscan False []) (exampleBytecode ''0.8.1'' False)
           (Inr True) True False)) ''A.sol:Foo'' 0 = (Inr (Some exampleBuildInfo), 0)
   \<and> solcVersion exampleBuildInfo \<notin> set [''0.8.1'']
   \<and> \<not> isOvm (exampleBytecode ''0.8.1'' False)
   \<and> verify_etherscan_get_contract_information
        (exampleEnv (exampleEtherscan False []) (exampleBytecode ''0.8.1'' False)
           (Inr True) True False)
        (Some ''A.sol:Foo'') (exampleBytecode ''0.8.1'' False) [''0.8.1''] [] (0, []) =
      (Inl (BuildInfoCompilerVersionMismatchError ''A.sol:Foo'' ''0.8.1'' False ''0.8.2''
              ''sepolia''),
       (0, [ArtifactExists ''A.sol:Foo'', GetBuildInfo ''A.sol:Foo'']))
   \<and> artifactExists
        (artifacts (exampleEnv (exampleEtherscan False []) (exampleBytecode ''0.8.1'' True)
           (Inr True) True False)) ''A.sol:Foo'' 0 = (Inr True, 0)
   \<and> getBuildInfo
        (artifacts (exampleEnv (exampleEtherscan False []) (exampleBytecode ''0.8.1'' True)
           (Inr True) True False)) ''A.sol:Foo'' 0 = (Inr (Some exampleBuildInfo), 0)
   \<and> solcVersion exampleBuildInfo \<notin> set []
   \<and> isOvm (exampleBytecode ''0.8.1'' True)
   \<and> extractMatchingContractInformation
        (solcArtifacts (exampleEnv (exampleEtherscan False []) (exampleBytecode ''0.8.1'' True)
           (Inr True) True False))
        ''A.sol:Foo'' exampleBuildInfo (exampleBytecode ''0.8.1'' True) 0 =
      (Inr (Some exampleContract), 0)
   \<and> getLibraryInformation
        (solcArtifacts (exampleEnv (exampleEtherscan False []) (exampleBytecode ''0.8.1'' True)
           (Inr True) True False))
        exampleContract [(''L'', ''0x01'')] 0 =
      (Inr \<lparr>li_libraries = [(''L.sol'', [(''L'', ''0x01'')])],
            li_undetectableLibraries = [''U'']\<rparr>, 0)
   \<and> verify_etherscan_get_contract_information
        (exampleEnv (exampleEtherscan False []) (exampleBytecode ''0.8.1'' True)
           (Inr True) True False)
        (Some ''A.sol:Foo'') (exampleBytecode ''0.8.1'' True) [] [(''L'', ''0x01'')] (0, []) =
      (Inr exampleExtended,
       (0, [ArtifactExists ''A.sol:Foo'', GetBuildInfo ''A.sol:Foo'',
            ExtractMatchingContractInformation ''A.sol:Foo'', GetLibraryInformation]))"
proof -
  let ?E = "exampleEnv (exampleEtherscan False []) (exampleBytecode ''0.8.1'' False)
              (Inr True) True False"
  let ?O = "exampleEnv (exampleEtherscan False []) (exampleBytecode ''0.8.1'' True)
              (Inr True) True False"
  let ?li = "\<lparr>li_libraries = [(''L.sol'', [(''L'', ''0x01'')])],
              li_undetectableLibraries = [''U'']\<rparr>"
  have h1: "artifactExists (artifacts ?E) ''A.sol:Foo'' 0 = (Inr True, 0)"
    by (simp add: exampleEnv_def)
  have h2: "getBuildInfo (artifacts ?E) ''A.sol:Foo'' 0 = (Inr (Some exampleBuildInfo), 0)"
    by (simp add: exampleEnv_def)
  have h3: "solcVersion exampleBuildInfo \<notin> set [''0.8.1'']"
    by (simp add: exampleBuildInfo_def)
  have h4: "\<not> isOvm (exampleBytecode ''0.8.1'' False)"
    by (simp add: exampleBytecode_def)
  from build_info_version_mismatch_raises[OF h1 h2 h3,
      of "exampleBytecode ''0.8.1'' False" "[]" "[]"] h4
  have evm: "verify_etherscan_get_contract_information ?E (Some ''A.sol:Foo'')
          (exampleBytecode ''0.8.1'' False) [''0.8.1''] [] (0, []) =
      (Inl (BuildInfoCompilerVersionMismatchError ''A.sol:Foo'' ''0.8.1'' False ''0.8.2''
              ''sepolia''),
       (0, [ArtifactExists ''A.sol:Foo'', GetBuildInfo ''A.sol:Foo'']))"
    by (simp add: exampleEnv_def exampleBytecode_def exampleBuildInfo_def)
  have o1: "artifactExists (artifacts ?O) ''A.sol:Foo'' 0 = (Inr True, 0)"
    by (simp add: exampleEnv_def)
  have o2: "getBuildInfo (artifacts ?O) ''A.sol:Foo'' 0 = (Inr (Some exampleBuildInfo), 0)"
    by (simp add: exampleEnv_def)
  have o3: "solcVersion exampleBuildInfo \<notin> set []"
    by simp
  have o4: "isOvm (exampleBytecode ''0.8.1'' True)"
    by (simp add: exampleBytecode_def)
  have o5: "extractMatchingContractInformation (solcArtifacts ?O) ''A.sol:Foo''
      exampleBuildInfo (exampleBytecode ''0.8.1'' True) 0 = (Inr (Some exampleContract), 0)"
    by (simp add: exampleEnv_def)
  have o6: "getLibraryInformation (solcArtifacts ?O) exampleContract [(''L'', ''0x01'')] 0 =
      (Inr ?li, 0)"
    by (simp add: exampleEnv_def)
  from build_info_version_mismatch_raises[OF o1 o2 o3,
      of "exampleBytecode ''0.8.1'' True" "[(''L'', ''0x01'')]" "[]"] o4 o5 o6
  have "verify_etherscan_get_contract_information ?O (Some ''A.sol:Foo'')
          (exampleBytecode ''0.8.1'' True) [] [(''L'', ''0x01'')] (0, []) =
      (Inr \<lparr>eci_compilerInput = ci_compilerInput exampleContract,
            eci_solcLongVersion = ci_solcLongVersion exampleContract,
            eci_sourceName = ci_sourceName exampleContract,
            eci_contractName = ci_contractName exampleContract,
            eci_abi = ci_abi exampleContract,
            eci_libraries = li_libraries ?li,
            eci_undetectableLibraries = li_undetectableLibraries ?li\<rparr>,
       (0, [] @ [ArtifactExists ''A.sol:Foo'', GetBuildInfo ''A.sol:Foo'',
            ExtractMatchingContractInformation ''A.sol:Foo'', GetLibraryInformation]))"
    by blast
  then have ovm: "verify_etherscan_get_contract_information ?O (Some ''A.sol:Foo'')
          (exampleBytecode ''0.8.1'' True) [] [(''L'', ''0x01'')] (0, []) =
      (Inr exampleExtended,
       (0, [ArtifactExists ''A.sol:Foo'', GetBuildInfo ''A.sol:Foo'',
            ExtractMatchingContractInformation ''A.sol:Foo'', GetLibraryInformation]))"
    by (simp add: exampleContract_def exampleExtended_def)
  from h1 h2 h3 h4 evm o1 o2 o3 o4 o5 o6 ovm show ?thesis by blast
qed

text \<open>
  Claim C5 (lines 451-459). In named mode, when the version check passes and
  \<open>extractMatchingContractInformation\<close> returns \<open>null\<close>,
  \<open>DeployedBytecodeMismatchError\<close> is thrown with the network name and the contract name.
  The trace ends with the extraction: \<open>extractInferredContractInformation\<close> is not called.
\<close>

theorem named_mode_bytecode_mismatch_no_fallback:
  assumes "artifactExists (artifacts env) fqn w = (Inr True, w1)"
    and "getBuildInfo (artifacts env) fqn w1 = (Inr (Some buildInfo), w2)"
    and "solcVersion buildInfo \<in> set matchingCompilerVersions \<or> isOvm deployedBytecode"
    and "extractMatchingContractInformation (solcArtifacts env) fqn buildInfo deployedBytecode w2
           = (Inr None, w3)"
  shows "verify_etherscan_get_contract_information env (Some fqn) deployedBytecode
           matchingCompilerVersions libraries (w, tr) =
         (Inl (DeployedBytecodeMismatchError (networkName env) fqn),
          (w3, tr @ [ArtifactExists fqn, GetBuildInfo fqn,
                     ExtractMatchingContractInformation fqn]))"
  using assms
  by (auto simp: verify_etherscan_get_contract_information_def andThen_def try_catch_def
      call_def return_def throw_def)

theorem bytecode_mismatch_witness:
  "artifactExists
     (artifacts (exampleEnv (exampleEtherscan False []) (exampleBytecode ''0.8.2'' False)
        (Inr True) False False)) ''A.sol:Foo'' 0 = (Inr True, 0)
   \<and> getBuildInfo
        (artifacts (exampleEnv (exampleEtherscan False []) (exampleBytecode ''0.8.2'' False)
           (Inr True) False False)) ''A.sol:Foo'' 0 = (Inr (Some exampleBuildInfo), 0)
   \<and> (solcVersion exampleBuildInfo \<in> set [''0.8.2''] \<or> isOvm (exampleBytecode ''0.8.2'' False))
   \<and> extractMatchingContractInformation
        (solcArtifacts (exampleEnv (exampleEtherscan False []) (exampleBytecode ''0.8.2'' False)
           (Inr True) False False))
        ''A.sol:Foo'' exampleBuildInfo (exampleBytecode ''0.8.2'' False) 0 = (Inr None, 0)
   \<and> verify_etherscan_get_contract_information
        (exampleEnv (exampleEtherscan False []) (exampleBytecode ''0.8.2'' False)
           (Inr True) False False)
        (Some ''A.sol:Foo'') (exampleBytecode ''0.8.2'' False) [''0.8.2''] [] (0, []) =
      (Inl (DeployedBytecodeMismatchError ''sepolia'' ''A.sol:Foo''),
       (0, [ArtifactExists ''A.sol:Foo'', GetBuildInfo ''A.sol:Foo'',
            ExtractMatchingContractInformation ''A.sol:Foo'']))"
proof -
  let ?E = "exampleEnv (exampleEtherscan False []) (exampleBytecode ''0.8.2'' False)
              (Inr True) False False"
  have h1: "artifactExists (artifacts ?E) ''A.sol:Foo'' 0 = (Inr True, 0)"
    by (simp add: exampleEnv_def)
  have h2: "getBuildInfo (artifacts ?E) ''A.sol:Foo'' 0 = (Inr (Some exampleBuildInfo), 0)"
    by (simp add: exampleEnv_def)
  have h3: "solcVersion exampleBuildInfo \<in> set [''0.8.2''] \<or>
      isOvm (exampleBytecode ''0.8.2'' False)"
    by (simp add: exampleBuildInfo_def)
  have h4: "extractMatchingContractInformation (solcArtifacts ?E) ''A.sol:Foo'' exampleBuildInfo
      (exampleBytecode ''0.8.2'' False) 0 = (Inr None, 0)"
    by (simp add: exampleEnv_def)
  from named_mode_bytecode_mismatch_no_fallback[OF h1 h2 h3 h4, of "[]" "[]"]
  have "verify_etherscan_get_contract_information ?E (Some ''A.sol:Foo'')
          (exampleBytecode ''0.8.2'' False) [''0.8.2''] [] (0, []) =
      (Inl (DeployedBytecodeMismatchError ''sepolia'' ''A.sol:Foo''),
       (0, [ArtifactExists ''A.sol:Foo'', GetBuildInfo ''A.sol:Foo'',
            ExtractMatchingContractInformation ''A.sol:Foo'']))"
    by (simp add: exampleEnv_def)
  with h1 h2 h3 h4 show ?thesis by blast
qed

text \<open>
  Claim C6 (lines 157-182). Let the main task, not asked to list the networks, get its list
  of subtasks, and let \<open>results\<close> be what running every one of them in turn gives, the
  runtime's check of the arguments included. Then
  the loop has run each of them (its state is the one \<open>run_every_backend\<close> ends in, and
  the trace has a \<open>Run\<close> for each), whether or not earlier ones failed. If none failed the
  task returns and has printed nothing. If some failed, \<open>printVerificationErrors\<close> is
  called once, with every back-end that failed paired with its own error, and then
  \<open>process.exit(1)\<close>.
\<close>

theorem backend_failures_are_collected:
  assumes "\<not> ta_listNetworks taskArgs"
    and subtasks: "run_get_verification_subtasks env s =
           (Inr verificationSubtasks, s1)"
    and every: "run_every_backend (run_verification_subtask env taskArgs) verificationSubtasks s1 =
           (results, (w2, tr2))"
  shows "length results = length verificationSubtasks
       \<and> (\<exists>rest. tr2 = snd s1 @ rest \<and> (\<forall>t\<in>set verificationSubtasks. Run t \<in> set rest))
       \<and> (failures verificationSubtasks results = [] \<longrightarrow>
            verify_task env taskArgs s = (Inr Returned, (w2, tr2)))
       \<and> (failures verificationSubtasks results \<noteq> [] \<longrightarrow>
            (\<forall>w3. printVerificationErrors (utilities env)
                    (failures verificationSubtasks results) w2 = (Inr (), w3) \<longrightarrow>
               verify_task env taskArgs s =
               (Inr (Exited 1),
                (w3, tr2 @ [PrintVerificationErrors (failures verificationSubtasks results),
                            ProcessExit 1]))))"
proof -
  from get_verification_subtasks_result[OF subtasks] have dist: "distinct verificationSubtasks"
    by auto
  have loop: "verification_subtasks_loop (run_verification_subtask env taskArgs)
      verificationSubtasks ([], False) s1 =
    (Inr (failures verificationSubtasks results, failures verificationSubtasks results \<noteq> []),
     (w2, tr2))"
    using loop_runs_every_backend[OF every dist, of "[]" False] by simp
  have len: "length results = length verificationSubtasks"
    using every by (rule length_run_every_backend)
  have trace: "\<exists>rest. tr2 = snd s1 @ rest \<and> (\<forall>t\<in>set verificationSubtasks. Run t \<in> set rest)"
    using run_every_backend_trace[OF run_verification_subtask_starts_with_run every] by simp
  have none: "verify_task env taskArgs s = (Inr Returned, (w2, tr2))"
    if "failures verificationSubtasks results = []"
    using assms(1) subtasks loop that
    by (simp add: verify_task_def andThen_def Let_def return_def)
  have some: "verify_task env taskArgs s =
      (Inr (Exited 1),
       (w3, tr2 @ [PrintVerificationErrors (failures verificationSubtasks results),
                   ProcessExit 1]))"
    if "failures verificationSubtasks results \<noteq> []"
      and "printVerificationErrors (utilities env)
             (failures verificationSubtasks results) w2 = (Inr (), w3)"
    for w3
    using assms(1) subtasks loop that
    by (simp add: verify_task_def andThen_def Let_def return_def call_def emit_def)
  from len trace none some show ?thesis by blast
qed

theorem backend_failures_witness:
  "\<not> ta_listNetworks (exampleTaskArgs (Some ''0xabc'') (Some ''A.sol:Foo''))
   \<and> run_get_verification_subtasks
        (exampleEnv (exampleEtherscan False []) (exampleBytecode ''0.7.0'' False)
           (Inr True) True True) (0, []) =
      (Inr [TASK_VERIFY_ETHERSCAN, TASK_VERIFY_SOURCIFY],
       (0, [Run TASK_VERIFY_GET_VERIFICATION_SUBTASKS]))
   \<and> run_every_backend
        (run_verification_subtask
           (exampleEnv (exampleEtherscan False []) (exampleBytecode ''0.7.0'' False)
              (Inr True) True True)
           (exampleTaskArgs (Some ''0xabc'') (Some ''A.sol:Foo'')))
        [TASK_VERIFY_ETHERSCAN, TASK_VERIFY_SOURCIFY]
        (0, [Run TASK_VERIFY_GET_VERIFICATION_SUBTASKS]) =
      ([Inl (CompilerVersionsMismatchError [''0.8.1'', ''0.8.2'', ''0.8.19''] ''0.7.0''
               ''sepolia''),
        Inl (OtherError ''unreachable'')],
       (0, [Run TASK_VERIFY_GET_VERIFICATION_SUBTASKS, Run TASK_VERIFY_ETHERSCAN,
            Run TASK_VERIFY_RESOLVE_ARGUMENTS, ImportAddressModule,
            ResolveConstructorArguments, ResolveLibraries,
            GetCurrentChainConfig ''sepolia'', FromChainConfig, IsVerified ''0xabc'',
            GetCompilerVersions, GetDeployedContractBytecode ''0xabc'',
            GetMatchingVersions [''0.8.1'', ''0.8.2'', ''0.8.19''],
            Run TASK_VERIFY_SOURCIFY]))
   \<and> failures [TASK_VERIFY_ETHERSCAN, TASK_VERIFY_SOURCIFY]
        [Inl (CompilerVersionsMismatchError [''0.8.1'', ''0.8.2'', ''0.8.19''] ''0.7.0''
               ''sepolia''),
         Inl (OtherError ''unreachable'')] =
      [(TASK_VERIFY_ETHERSCAN,
        CompilerVersionsMismatchError [''0.8.1'', ''0.8.2'', ''0.8.19''] ''0.7.0'' ''sepolia''),
       (TASK_VERIFY_SOURCIFY, OtherError ''unreachable'')]
   \<and> printVerificationErrors
        (utilities (exampleEnv (exampleEtherscan False []) (exampleBytecode ''0.7.0'' False)
           (Inr True) True True))
        [(TASK_VERIFY_ETHERSCAN,
          CompilerVersionsMismatchError [''0.8.1'', ''0.8.2'', ''0.8.19''] ''0.7.0'' ''sepolia''),
         (TASK_VERIFY_SOURCIFY, OtherError ''unreachable'')] 0 = (Inr (), 0)
   \<and> verify_task
        (exampleEnv (exampleEtherscan False []) (exampleBytecode ''0.7.0'' False)
           (Inr True) True True)
        (exampleTaskArgs (Some ''0xabc'') (Some ''A.sol:Foo'')) (0, []) =
      (Inr (Exited 1),
       (0, [Run TASK_VERIFY_GET_VERIFICATION_SUBTASKS, Run TASK_VERIFY_ETHERSCAN,
            Run TASK_VERIFY_RESOLVE_ARGUMENTS, ImportAddressModule,
            ResolveConstructorArguments, ResolveLibraries,
            GetCurrentChainConfig ''sepolia'', FromChainConfig, IsVerified ''0xabc'',
            GetCompilerVersions, GetDeployedContractBytecode ''0xabc'',
            GetMatchingVersions [''0.8.1'', ''0.8.2'', ''0.8.19''],
            Run TASK_VERIFY_SOURCIFY,
            PrintVerificationErrors
              [(TASK_VERIFY_ETHERSCAN,
                CompilerVersionsMismatchError [''0.8.1'', ''0.8.2'', ''0.8.19''] ''0.7.0''
                  ''sepolia''),
               (TASK_VERIFY_SOURCIFY, OtherError ''unreachable'')],
            ProcessExit 1]))"
proof -
  let ?E = "exampleEnv (exampleEtherscan False []) (exampleBytecode ''0.7.0'' False)
              (Inr True) True True"
  let ?A = "exampleTaskArgs (Some ''0xabc'') (Some ''A.sol:Foo'')"
  let ?ts = "[TASK_VERIFY_ETHERSCAN, TASK_VERIFY_SOURCIFY]"
  let ?e = "CompilerVersionsMismatchError [''0.8.1'', ''0.8.2'', ''0.8.19''] ''0.7.0''
              ''sepolia''"
  let ?rs = "[Inl ?e, Inl (OtherError ''unreachable'')] :: (error + unit) list"
  let ?T = "[Run TASK_VERIFY_GET_VERIFICATION_SUBTASKS, Run TASK_VERIFY_ETHERSCAN,
            Run TASK_VERIFY_RESOLVE_ARGUMENTS, ImportAddressModule,
            ResolveConstructorArguments, ResolveLibraries,
            GetCurrentChainConfig ''sepolia'', FromChainConfig, IsVerified ''0xabc'',
            GetCompilerVersions, GetDeployedContractBytecode ''0xabc'',
            GetMatchingVersions [''0.8.1'', ''0.8.2'', ''0.8.19''],
            Run TASK_VERIFY_SOURCIFY]"
  have h1: "\<not> ta_listNetworks ?A"
    by (simp add: exampleTaskArgs_def)
  have h2: "run_get_verification_subtasks ?E (0, []) =
      (Inr ?ts, (0, [Run TASK_VERIFY_GET_VERIFICATION_SUBTASKS]))"
    by (simp add: program_defs exampleEnv_def verify_get_verification_subtasks_def)
  have h3: "run_every_backend (run_verification_subtask ?E ?A) ?ts
      (0, [Run TASK_VERIFY_GET_VERIFICATION_SUBTASKS]) = (?rs, (0, ?T))"
    by (simp add: program_defs example_defs run_verification_subtask_def
        run_resolve_arguments_result verify_etherscan_def verify_resolve_arguments_def
        verify_etherscan_unverified_def)
  have h4: "failures ?ts ?rs =
      [(TASK_VERIFY_ETHERSCAN, ?e), (TASK_VERIFY_SOURCIFY, OtherError ''unreachable'')]"
    by (simp add: failures_def)
  have h5: "printVerificationErrors (utilities ?E)
      [(TASK_VERIFY_ETHERSCAN, ?e), (TASK_VERIFY_SOURCIFY, OtherError ''unreachable'')] 0 =
      (Inr (), 0)"
    by (simp add: exampleEnv_def)
  from backend_failures_are_collected[OF h1 h2 h3] h4 h5
  have "verify_task ?E ?A (0, []) =
      (Inr (Exited 1),
       (0, ?T @ [PrintVerificationErrors
              [(TASK_VERIFY_ETHERSCAN, ?e),
               (TASK_VERIFY_SOURCIFY, OtherError ''unreachable'')],
            ProcessExit 1]))"
    by simp
  with h1 h2 h3 h4 h5 show ?thesis by simp
qed

text \<open>
  Run without an address, the Etherscan subtask is refused by the runtime (HH306): its
  action does not start, so \<open>verify:resolve-arguments\<close> is not run and
  \<open>MissingAddressError\<close> is not what the batch reports. The refusal is collected like any
  other failure and Sourcify is still run.
\<close>

lemma missing_address_is_refused_by_the_runtime:
  "verify_task
     (exampleEnv (exampleEtherscan False []) (exampleBytecode ''0.8.2'' False)
        (Inr True) True True)
     (exampleTaskArgs None None) (0, []) =
   (Inr (Exited 1),
    (0, [Run TASK_VERIFY_GET_VERIFICATION_SUBTASKS, Run TASK_VERIFY_ETHERSCAN,
         Run TASK_VERIFY_SOURCIFY,
         PrintVerificationErrors
           [(TASK_VERIFY_ETHERSCAN, MissingTaskArgumentError ''address'' TASK_VERIFY_ETHERSCAN),
            (TASK_VERIFY_SOURCIFY, OtherError ''unreachable'')],
         ProcessExit 1]))"
  by (simp add: program_defs exampleEnv_def exampleTaskArgs_def verify_task_def
      verify_get_verification_subtasks_def run_verification_subtask_def)



text \<open>
  Claim C8 (lines 482-515). When the dependency graph of the source file does not hold
  exactly one resolved file of that source name, \<open>UnexpectedNumberOfFilesError\<close> is
  thrown, and the trace shows the dependency-graph task only: no compilation job is
  asked for.
\<close>

theorem minimal_input_needs_exactly_one_file:
  assumes "getDependencyGraph (tasks env) [sourceName] w = (Inr dependencyGraph, w1)"
    and "length (filter (\<lambda>resolvedFile. rf_sourceName resolvedFile = sourceName)
                   (getResolvedFiles dependencyGraph)) \<noteq> 1"
  shows "verify_etherscan_get_minimal_input env sourceName (w, tr) =
         (Inl UnexpectedNumberOfFilesError,
          (w1, tr @ [Run TASK_COMPILE_SOLIDITY_GET_DEPENDENCY_GRAPH]))"
  using assms
  by (simp add: verify_etherscan_get_minimal_input_def Let_def andThen_def call_def throw_def)

theorem minimal_input_witness:
  "getDependencyGraph
     (tasks (exampleEnv (exampleEtherscan False []) (exampleBytecode ''0.8.2'' False)
        (Inr True) True False)) [''Ghost.sol''] 0 =
     (Inr \<lparr>getResolvedFiles = [\<lparr>rf_sourceName = ''L.sol'', rf_content = ''contract''\<rparr>]\<rparr>, 0)
   \<and> length (filter (\<lambda>resolvedFile. rf_sourceName resolvedFile = ''Ghost.sol'')
        (getResolvedFiles
           \<lparr>getResolvedFiles = [\<lparr>rf_sourceName = ''L.sol'', rf_content = ''contract''\<rparr>]\<rparr>)) \<noteq> 1
   \<and> verify_etherscan_get_minimal_input
        (exampleEnv (exampleEtherscan False []) (exampleBytecode ''0.8.2'' False)
           (Inr True) True False) ''Ghost.sol'' (0, []) =
      (Inl UnexpectedNumberOfFilesError, (0, [Run TASK_COMPILE_SOLIDITY_GET_DEPENDENCY_GRAPH]))"
proof -
  let ?E = "exampleEnv (exampleEtherscan False []) (exampleBytecode ''0.8.2'' False)
              (Inr True) True False"
  let ?G = "\<lparr>getResolvedFiles = [\<lparr>rf_sourceName = ''L.sol'', rf_content = ''contract''\<rparr>]\<rparr>"
  have h1: "getDependencyGraph (tasks ?E) [''Ghost.sol''] 0 = (Inr ?G, 0)"
    by (simp add: exampleEnv_def)
  have h2: "length (filter (\<lambda>resolvedFile. rf_sourceName resolvedFile = ''Ghost.sol'')
      (getResolvedFiles ?G)) \<noteq> 1"
    by simp
  from minimal_input_needs_exactly_one_file[OF h1 h2, of "[]"] h1 h2
  show ?thesis by simp
qed

text \<open>
  Claim C9 (lines 258-264). When the explorer reports the address as verified, the subtask
  reads the contract's URL, logs it and returns: after \<open>IsVerified\<close> the trace has these
  two events and nothing else, so no bytecode is fetched, no contract is resolved and
  nothing is submitted or polled.
\<close>

theorem already_verified_returns_early:
  assumes "run_resolve_arguments env taskArgs s =
             (Inr args, (w1, tr1))"
    and "getCurrentChainConfig (statics env) (networkName env)
           (etherscanCustomChains (config env)) w1 = (Inr chainConfig, w2)"
    and "fromChainConfig (statics env) (etherscanApiKey (config env)) chainConfig w2 =
           (Inr etherscan, w3)"
    and "isVerified etherscan (va_address args) w3 = (Inr True, w4)"
    and "getContractUrl etherscan (va_address args) w4 = (Inr contractURL, w5)"
  shows "verify_etherscan env taskArgs s =
         (Inr (), (w5, tr1 @ [GetCurrentChainConfig (networkName env), FromChainConfig,
                              IsVerified (va_address args), GetContractUrl (va_address args),
                              ConsoleLog (alreadyVerifiedMessage (va_address args) contractURL)]))"
  using assms
  by (simp add: verify_etherscan_def andThen_def call_def emit_def)

theorem already_verified_witness:
  "run_resolve_arguments
        (exampleEnv (exampleEtherscan True []) (exampleBytecode ''0.8.2'' False)
           (Inr True) True False)
        (exampleTaskArgs (Some ''0xabc'') (Some ''A.sol:Foo'')) (0, []) =
     (Inr exampleArgs,
      (0, [Run TASK_VERIFY_RESOLVE_ARGUMENTS, ImportAddressModule, ResolveConstructorArguments,
           ResolveLibraries]))
   \<and> getCurrentChainConfig
        (statics (exampleEnv (exampleEtherscan True []) (exampleBytecode ''0.8.2'' False)
           (Inr True) True False))
        (networkName (exampleEnv (exampleEtherscan True []) (exampleBytecode ''0.8.2'' False)
           (Inr True) True False))
        (etherscanCustomChains (config (exampleEnv (exampleEtherscan True [])
           (exampleBytecode ''0.8.2'' False) (Inr True) True False))) 0 = (Inr ''sepolia'', 0)
   \<and> fromChainConfig
        (statics (exampleEnv (exampleEtherscan True []) (exampleBytecode ''0.8.2'' False)
           (Inr True) True False))
        (etherscanApiKey (config (exampleEnv (exampleEtherscan True [])
           (exampleBytecode ''0.8.2'' False) (Inr True) True False))) ''sepolia'' 0 =
      (Inr (exampleEtherscan True []), 0)
   \<and> isVerified (exampleEtherscan True []) (va_address exampleArgs) 0 = (Inr True, 0)
   \<and> getContractUrl (exampleEtherscan True []) (va_address exampleArgs) 0 =
      (Inr ''https://explorer/address/0xabc'', 0)
   \<and> verify_etherscan
        (exampleEnv (exampleEtherscan True []) (exampleBytecode ''0.8.2'' False)
           (Inr True) True False)
        (exampleTaskArgs (Some ''0xabc'') (Some ''A.sol:Foo'')) (0, []) =
      (Inr (),
       (0, [Run TASK_VERIFY_RESOLVE_ARGUMENTS, ImportAddressModule, ResolveConstructorArguments,
            ResolveLibraries, GetCurrentChainConfig ''sepolia'', FromChainConfig,
            IsVerified ''0xabc'', GetContractUrl ''0xabc'',
            ConsoleLog (alreadyVerifiedMessage ''0xabc'' ''https://explorer/address/0xabc'')]))"
proof -
  let ?X = "exampleEtherscan True []"
  let ?E = "exampleEnv ?X (exampleBytecode ''0.8.2'' False) (Inr True) True False"
  have h1: "run_resolve_arguments ?E (exampleTaskArgs (Some ''0xabc'') (Some ''A.sol:Foo''))
     (0, []) =
     (Inr exampleArgs,
      (0, [Run TASK_VERIFY_RESOLVE_ARGUMENTS, ImportAddressModule, ResolveConstructorArguments,
           ResolveLibraries]))"
    by (simp add: program_defs exampleEnv_def exampleTaskArgs_def exampleArgs_def
        run_resolve_arguments_result verify_resolve_arguments_def)
  have h2: "getCurrentChainConfig (statics ?E) (networkName ?E)
      (etherscanCustomChains (config ?E)) 0 = (Inr ''sepolia'', 0)"
    by (simp add: exampleEnv_def)
  have h3: "fromChainConfig (statics ?E) (etherscanApiKey (config ?E)) ''sepolia'' 0 =
      (Inr ?X, 0)"
    by (simp add: exampleEnv_def)
  have h4: "isVerified ?X (va_address exampleArgs) 0 = (Inr True, 0)"
    by (simp add: exampleEtherscan_def)
  have h5: "getContractUrl ?X (va_address exampleArgs) 0 =
      (Inr ''https://explorer/address/0xabc'', 0)"
    by (simp add: exampleEtherscan_def exampleArgs_def)
  from already_verified_returns_early[OF h1 h2 h3 h4 h5]
  have "verify_etherscan ?E (exampleTaskArgs (Some ''0xabc'') (Some ''A.sol:Foo'')) (0, []) =
      (Inr (),
       (0, [Run TASK_VERIFY_RESOLVE_ARGUMENTS, ImportAddressModule, ResolveConstructorArguments,
            ResolveLibraries, GetCurrentChainConfig ''sepolia'', FromChainConfig,
            IsVerified ''0xabc'', GetContractUrl ''0xabc'',
            ConsoleLog (alreadyVerifiedMessage ''0xabc'' ''https://explorer/address/0xabc'')]))"
    by (simp add: exampleEnv_def exampleArgs_def)
  with h1 h2 h3 h4 h5 show ?thesis by blast
qed

text \<open>
  Claim C10 (lines 421-431). In named mode, when \<open>artifactExists\<close> throws, the outcome is
  the one of an artifact that does not exist: \<open>ContractNotFoundError\<close> with the contract
  name, and the trace ends with the existence check, so no build info is loaded.
\<close>

theorem artifact_check_exception_is_contract_not_found:
  assumes "artifactExists (artifacts env) fqn w = (r, w1)"
    and "r = Inr False \<or> (\<exists>e. r = Inl e)"
  shows "verify_etherscan_get_contract_information env (Some fqn) deployedBytecode
           matchingCompilerVersions libraries (w, tr) =
         (Inl (ContractNotFoundError fqn), (w1, tr @ [ArtifactExists fqn]))"
  using assms
  by (auto simp: verify_etherscan_get_contract_information_def andThen_def try_catch_def
      call_def return_def throw_def)

theorem artifact_check_exception_witness:
  "artifactExists
     (artifacts (exampleEnv (exampleEtherscan False []) (exampleBytecode ''0.8.2'' False)
        (Inl (OtherError ''EACCES'')) True False)) ''A.sol:Foo'' 0 =
     (Inl (OtherError ''EACCES''), 0)
   \<and> verify_etherscan_get_contract_information
        (exampleEnv (exampleEtherscan False []) (exampleBytecode ''0.8.2'' False)
           (Inl (OtherError ''EACCES'')) True False)
        (Some ''A.sol:Foo'') (exampleBytecode ''0.8.2'' False) [''0.8.2''] [] (0, []) =
      (Inl (ContractNotFoundError ''A.sol:Foo''), (0, [ArtifactExists ''A.sol:Foo'']))"
proof -
  let ?E = "exampleEnv (exampleEtherscan False []) (exampleBytecode ''0.8.2'' False)
              (Inl (OtherError ''EACCES'')) True False"
  have h1: "artifactExists (artifacts ?E) ''A.sol:Foo'' 0 = (Inl (OtherError ''EACCES''), 0)"
    by (simp add: exampleEnv_def)
  have h2: "Inl (OtherError ''EACCES'') = Inr False \<or>
      (\<exists>e. (Inl (OtherError ''EACCES'') :: error + bool) = Inl e)"
    by simp
  from artifact_check_exception_is_contract_not_found[OF h1 h2,
      of "exampleBytecode ''0.8.2'' False" "[''0.8.2'']" "[]" "[]"] h1
  show ?thesis by simp
qed

end
